theory Spec2Isabelle
  imports Complex_Main
begin

section \<open>Values\<close>

text \<open>
  A Python \<open>float\<close> is a finite double, an infinity or NaN. The code never does float
  arithmetic: it only stores floats and lets the schema compare them with the bounds
  \<open>0\<close> and \<open>5\<close>. \<open>Finite q\<close> is the double of value \<open>q\<close>; a decimal literal of the
  source (\<open>11.95\<close>) is written as the decimal fraction it denotes.
\<close>

datatype pyfloat = Finite rat | PosInf | NegInf | NaN

text \<open>Python's \<open>x >= c\<close> and \<open>x <= c\<close> for a float \<open>x\<close> and a finite bound \<open>c\<close>: false on NaN.\<close>

fun float_ge :: "pyfloat \<Rightarrow> rat \<Rightarrow> bool" where
  "float_ge (Finite q) c = (c \<le> q)"
| "float_ge PosInf c = True"
| "float_ge NegInf c = False"
| "float_ge NaN c = False"

fun float_le :: "pyfloat \<Rightarrow> rat \<Rightarrow> bool" where
  "float_le (Finite q) c = (q \<le> c)"
| "float_le PosInf c = False"
| "float_le NegInf c = True"
| "float_le NaN c = False"

fun float_lt :: "pyfloat \<Rightarrow> rat \<Rightarrow> bool" where
  "float_lt (Finite q) c = (q < c)"
| "float_lt PosInf c = False"
| "float_lt NegInf c = True"
| "float_lt NaN c = False"

text \<open>
  The values that reach a schema: the body of a request (JSON) or the keyword arguments
  \<open>**doc\<close> built from a stored document. A dictionary is an association list read with
  \<open>map_of\<close>. Strings are UTF-8 byte sequences.
\<close>

datatype pyval =
    PNone
  | PBool bool
  | PInt int
  | PFloat pyfloat
  | PStr string
  | PList "pyval list"
  | PDict "(string \<times> pyval) list"

type_synonym doc = "(string \<times> pyval) list"

text \<open>
  The exceptions the code meets, all of them instances of \<open>Exception\<close> (what
  \<open>except Exception\<close> catches): \<open>ImportError\<close>, pydantic's \<open>ValidationError\<close> (here with
  the name of the first field at fault, in declaration order) and any other, each with
  its message.
\<close>

datatype exn = ImportError string | ValidationError string | OtherError string

fun str_exn :: "exn \<Rightarrow> string" where
  "str_exn (ImportError m) = m"
| "str_exn (ValidationError m) = m"
| "str_exn (OtherError m) = m"

definition bind_exn :: "exn + 'a \<Rightarrow> ('a \<Rightarrow> exn + 'b) \<Rightarrow> exn + 'b" where
  "bind_exn r f = (case r of Inl e \<Rightarrow> Inl e | Inr x \<Rightarrow> f x)"

section \<open>Schemas (schemas.py)\<close>

text \<open>
  pydantic validates a field in lax mode: a \<open>float\<close> field takes a float, an int or a
  bool, an \<open>int\<close> field takes an int, a bool or a float without fractional part, and both
  take a string that parses as a number. How a string parses is pydantic's business and
  stays a parameter; every theorem below holds for every parser. A \<open>str\<close> field takes
  a string only. Keys that are not fields are ignored.
\<close>

record strparse =
  str_to_int :: "string \<Rightarrow> int option"
  str_to_float :: "string \<Rightarrow> pyfloat option"

fun as_float :: "strparse \<Rightarrow> pyval \<Rightarrow> pyfloat option" where
  "as_float P (PFloat x) = Some x"
| "as_float P (PInt n) = Some (Finite (of_int n))"
| "as_float P (PBool b) = Some (Finite (if b then 1 else 0))"
| "as_float P (PStr s) = str_to_float P s"
| "as_float P v = None"

fun as_int :: "strparse \<Rightarrow> pyval \<Rightarrow> int option" where
  "as_int P (PInt n) = Some n"
| "as_int P (PBool b) = Some (if b then 1 else 0)"
| "as_int P (PFloat (Finite q)) = (if of_int \<lfloor>q\<rfloor> = q then Some \<lfloor>q\<rfloor> else None)"
| "as_int P (PStr s) = str_to_int P s"
| "as_int P v = None"

text \<open>\<open>x: str = Field(...)\<close>: required.\<close>

definition req_str :: "doc \<Rightarrow> string \<Rightarrow> exn + string" where
  "req_str d k =
     (case map_of d k of
        Some (PStr s) \<Rightarrow> Inr s
      | _ \<Rightarrow> Inl (ValidationError k))"

text \<open>\<open>x: Optional[str] = Field(None)\<close>: absent or \<open>None\<close> gives \<open>None\<close>.\<close>

definition opt_str :: "doc \<Rightarrow> string \<Rightarrow> exn + string option" where
  "opt_str d k =
     (case map_of d k of
        None \<Rightarrow> Inr None
      | Some PNone \<Rightarrow> Inr None
      | Some (PStr s) \<Rightarrow> Inr (Some s)
      | Some _ \<Rightarrow> Inl (ValidationError k))"

text \<open>\<open>x: Optional[dict] = None\<close>.\<close>

definition opt_dict :: "doc \<Rightarrow> string \<Rightarrow> exn + doc option" where
  "opt_dict d k =
     (case map_of d k of
        None \<Rightarrow> Inr None
      | Some PNone \<Rightarrow> Inr None
      | Some (PDict m) \<Rightarrow> Inr (Some m)
      | Some _ \<Rightarrow> Inl (ValidationError k))"

text \<open>
  A \<open>float\<close> field with an optional default and the bounds \<open>ge\<close> and \<open>le\<close> of its
  \<open>Field\<close>; a default is not validated.
\<close>

definition float_field ::
  "strparse \<Rightarrow> doc \<Rightarrow> string \<Rightarrow> pyfloat option \<Rightarrow> rat option \<Rightarrow> rat option \<Rightarrow> exn + pyfloat" where
  "float_field P d k dflt ge le =
     (case map_of d k of
        None \<Rightarrow> (case dflt of None \<Rightarrow> Inl (ValidationError k) | Some x \<Rightarrow> Inr x)
      | Some v \<Rightarrow>
          (case as_float P v of
             None \<Rightarrow> Inl (ValidationError k)
           | Some x \<Rightarrow>
               if (case ge of None \<Rightarrow> True | Some c \<Rightarrow> float_ge x c)
                  \<and> (case le of None \<Rightarrow> True | Some c \<Rightarrow> float_le x c)
               then Inr x else Inl (ValidationError k)))"

definition int_field ::
  "strparse \<Rightarrow> doc \<Rightarrow> string \<Rightarrow> int option \<Rightarrow> int option \<Rightarrow> int option \<Rightarrow> exn + int" where
  "int_field P d k dflt ge le =
     (case map_of d k of
        None \<Rightarrow> (case dflt of None \<Rightarrow> Inl (ValidationError k) | Some n \<Rightarrow> Inr n)
      | Some v \<Rightarrow>
          (case as_int P v of
             None \<Rightarrow> Inl (ValidationError k)
           | Some n \<Rightarrow>
               if (case ge of None \<Rightarrow> True | Some c \<Rightarrow> c \<le> n)
                  \<and> (case le of None \<Rightarrow> True | Some c \<Rightarrow> n \<le> c)
               then Inr n else Inl (ValidationError k)))"

text \<open>
  The classes of schemas.py. Field names carry the initial of their class, since two
  records cannot share a field name: \<open>m_price\<close> is \<open>MenuItem.price\<close>.
\<close>

record MenuItem =
  m_name :: string
  m_description :: "string option"
  m_price :: pyfloat
  m_category :: string
  m_image :: "string option"
  m_media :: "string option"
  m_rating :: pyfloat
  m_ratings_count :: int

record Review =
  r_name :: string
  r_avatar :: "string option"
  r_rating :: int
  r_quote :: string
  r_platform :: "string option"

record OrderItem =
  i_item_id :: "string option"
  i_name :: string
  i_price :: pyfloat
  i_quantity :: int
  i_options :: "doc option"

record Order =
  o_items :: "OrderItem list"
  o_subtotal :: pyfloat
  o_tax :: pyfloat
  o_total :: pyfloat
  o_customer_name :: "string option"
  o_customer_phone :: "string option"
  o_notes :: "string option"

text \<open>\<open>MenuItem(**d)\<close>.\<close>

definition validate_MenuItem :: "strparse \<Rightarrow> doc \<Rightarrow> exn + MenuItem" where
  "validate_MenuItem P d =
     bind_exn (req_str d ''name'') (\<lambda>n.
     bind_exn (opt_str d ''description'') (\<lambda>de.
     bind_exn (float_field P d ''price'' None (Some 0) None) (\<lambda>p.
     bind_exn (req_str d ''category'') (\<lambda>c.
     bind_exn (opt_str d ''image'') (\<lambda>im.
     bind_exn (opt_str d ''media'') (\<lambda>me.
     bind_exn (float_field P d ''rating'' (Some (Finite (48 / 10))) (Some 0) (Some 5)) (\<lambda>r.
     bind_exn (int_field P d ''ratings_count'' (Some 0) (Some 0) None) (\<lambda>rc.
     Inr \<lparr>m_name = n, m_description = de, m_price = p, m_category = c, m_image = im,
          m_media = me, m_rating = r, m_ratings_count = rc\<rparr>))))))))"

text \<open>\<open>Review(**d)\<close>.\<close>

definition validate_Review :: "strparse \<Rightarrow> doc \<Rightarrow> exn + Review" where
  "validate_Review P d =
     bind_exn (req_str d ''name'') (\<lambda>n.
     bind_exn (opt_str d ''avatar'') (\<lambda>a.
     bind_exn (int_field P d ''rating'' None (Some 1) (Some 5)) (\<lambda>r.
     bind_exn (req_str d ''quote'') (\<lambda>q.
     bind_exn (opt_str d ''platform'') (\<lambda>pl.
     Inr \<lparr>r_name = n, r_avatar = a, r_rating = r, r_quote = q, r_platform = pl\<rparr>)))))"

text \<open>\<open>OrderItem\<close>: no bound on \<open>price\<close> or \<open>quantity\<close>; \<open>quantity\<close> defaults to 1.\<close>

definition validate_OrderItem :: "strparse \<Rightarrow> doc \<Rightarrow> exn + OrderItem" where
  "validate_OrderItem P d =
     bind_exn (opt_str d ''item_id'') (\<lambda>ii.
     bind_exn (req_str d ''name'') (\<lambda>n.
     bind_exn (float_field P d ''price'' None None None) (\<lambda>p.
     bind_exn (int_field P d ''quantity'' (Some 1) None None) (\<lambda>q.
     bind_exn (opt_dict d ''options'') (\<lambda>op.
     Inr \<lparr>i_item_id = ii, i_name = n, i_price = p, i_quantity = q, i_options = op\<rparr>)))))"

text \<open>\<open>items: List[OrderItem]\<close>: a list whose elements are dictionaries that validate.\<close>

fun validate_items :: "strparse \<Rightarrow> pyval list \<Rightarrow> exn + OrderItem list" where
  "validate_items P [] = Inr []"
| "validate_items P (PDict d # vs) =
     bind_exn (validate_OrderItem P d) (\<lambda>i.
     bind_exn (validate_items P vs) (\<lambda>is. Inr (i # is)))"
| "validate_items P (v # vs) = Inl (ValidationError ''items'')"

definition items_field :: "strparse \<Rightarrow> doc \<Rightarrow> exn + OrderItem list" where
  "items_field P d =
     (case map_of d ''items'' of
        Some (PList vs) \<Rightarrow> validate_items P vs
      | _ \<Rightarrow> Inl (ValidationError ''items''))"

definition validate_Order :: "strparse \<Rightarrow> doc \<Rightarrow> exn + Order" where
  "validate_Order P d =
     bind_exn (items_field P d) (\<lambda>its.
     bind_exn (float_field P d ''subtotal'' None None None) (\<lambda>s.
     bind_exn (float_field P d ''tax'' None None None) (\<lambda>t.
     bind_exn (float_field P d ''total'' None None None) (\<lambda>to.
     bind_exn (opt_str d ''customer_name'') (\<lambda>cn.
     bind_exn (opt_str d ''customer_phone'') (\<lambda>cp.
     bind_exn (opt_str d ''notes'') (\<lambda>no.
     Inr \<lparr>o_items = its, o_subtotal = s, o_tax = t, o_total = to, o_customer_name = cn,
          o_customer_phone = cp, o_notes = no\<rparr>)))))))"

text \<open>\<open>model_dump()\<close>: the fields in declaration order.\<close>

definition dump_opt_str :: "string option \<Rightarrow> pyval" where
  "dump_opt_str x = (case x of None \<Rightarrow> PNone | Some s \<Rightarrow> PStr s)"

definition model_dump_MenuItem :: "MenuItem \<Rightarrow> doc" where
  "model_dump_MenuItem m =
     [(''name'', PStr (m_name m)),
      (''description'', dump_opt_str (m_description m)),
      (''price'', PFloat (m_price m)),
      (''category'', PStr (m_category m)),
      (''image'', dump_opt_str (m_image m)),
      (''media'', dump_opt_str (m_media m)),
      (''rating'', PFloat (m_rating m)),
      (''ratings_count'', PInt (m_ratings_count m))]"

definition model_dump_Review :: "Review \<Rightarrow> doc" where
  "model_dump_Review r =
     [(''name'', PStr (r_name r)),
      (''avatar'', dump_opt_str (r_avatar r)),
      (''rating'', PInt (r_rating r)),
      (''quote'', PStr (r_quote r)),
      (''platform'', dump_opt_str (r_platform r))]"

definition model_dump_OrderItem :: "OrderItem \<Rightarrow> doc" where
  "model_dump_OrderItem i =
     [(''item_id'', dump_opt_str (i_item_id i)),
      (''name'', PStr (i_name i)),
      (''price'', PFloat (i_price i)),
      (''quantity'', PInt (i_quantity i)),
      (''options'', (case i_options i of None \<Rightarrow> PNone | Some m \<Rightarrow> PDict m))]"

definition model_dump_Order :: "Order \<Rightarrow> doc" where
  "model_dump_Order ord =
     [(''items'', PList (map (\<lambda>i. PDict (model_dump_OrderItem i)) (o_items ord))),
      (''subtotal'', PFloat (o_subtotal ord)),
      (''tax'', PFloat (o_tax ord)),
      (''total'', PFloat (o_total ord)),
      (''customer_name'', dump_opt_str (o_customer_name ord)),
      (''customer_phone'', dump_opt_str (o_customer_phone ord)),
      (''notes'', dump_opt_str (o_notes ord))]"

text \<open>The names of the classes, and Python's \<open>str.lower\<close> on ASCII letters.\<close>

definition MenuItem_name :: string where "MenuItem_name = ''MenuItem''"
definition Review_name :: string where "Review_name = ''Review''"
definition Order_name :: string where "Order_name = ''Order''"

definition lower_char :: "char \<Rightarrow> char" where
  "lower_char c =
     (let n = (of_char c :: nat) in if 65 \<le> n \<and> n \<le> 90 then char_of (n + 32) else c)"

definition lower :: "string \<Rightarrow> string" where
  "lower s = map lower_char s"

section \<open>The persistence collaborator\<close>

text \<open>
  The module \<open>database\<close> is not part of the repository: the handlers import it inside
  their \<open>try\<close> blocks and work without it. Its operations are therefore parameters, over
  an arbitrary state \<open>'w\<close> of the world outside the handlers; each one either returns or
  raises.
  \<^item> \<open>import_db\<close>: \<open>from database import db\<close>, giving \<open>None\<close> or a handle;
  \<^item> \<open>db_find c\<close>: \<open>list(db[c].find({}, {"_id": 0}))\<close>;
  \<^item> \<open>db_insert_many c docs\<close>: \<open>db[c].insert_many(docs)\<close>, which may change the world
    even when it raises;
  \<^item> \<open>import_create_document\<close>: \<open>from database import create_document\<close>;
  \<^item> \<open>create_document c record\<close>: returns the generated identifier, a string as
    \<open>OrderResponse.id\<close> holds one;
  \<^item> \<open>db_name\<close>: \<open>None\<close> when \<open>hasattr(db, 'name')\<close> is false, else what reading
    \<open>db.name\<close> does;
  \<^item> \<open>list_collection_names\<close>: \<open>db.list_collection_names()\<close>, a list of names.
\<close>

datatype dbref = DbNone | DbHandle

record 'w database =
  import_db :: "'w \<Rightarrow> exn + dbref"
  db_find :: "string \<Rightarrow> 'w \<Rightarrow> exn + doc list"
  db_insert_many :: "string \<Rightarrow> doc list \<Rightarrow> 'w \<Rightarrow> exn option \<times> 'w"
  import_create_document :: "'w \<Rightarrow> exn option"
  create_document :: "string \<Rightarrow> Order \<Rightarrow> 'w \<Rightarrow> (exn + string) \<times> 'w"
  db_name :: "'w \<Rightarrow> (exn + string) option"
  list_collection_names :: "'w \<Rightarrow> exn + string list"

text \<open>
  What a handler did: its result (\<open>Inr\<close> the value it returned, \<open>Inl\<close> the exception
  that left it), the world after it, and the persistence calls it made, in order.
\<close>

datatype call =
    Find string
  | InsertMany string "doc list"
  | CreateDocument string Order

fun collection :: "call \<Rightarrow> string" where
  "collection (Find c) = c"
| "collection (InsertMany c ds) = c"
| "collection (CreateDocument c ord) = c"

fun is_insert :: "call \<Rightarrow> bool" where
  "is_insert (InsertMany c ds) = True"
| "is_insert x = False"

record ('r, 'w) outcome =
  result :: 'r
  world :: 'w
  calls :: "call list"

section \<open>Handlers (main.py)\<close>

text \<open>A list comprehension whose element expression may raise.\<close>

fun map_exn :: "('a \<Rightarrow> exn + 'b) \<Rightarrow> 'a list \<Rightarrow> exn + 'b list" where
  "map_exn f [] = Inr []"
| "map_exn f (x # xs) =
     bind_exn (f x) (\<lambda>y. bind_exn (map_exn f xs) (\<lambda>ys. Inr (y # ys)))"

subsection \<open>GET /api/menu\<close>

text \<open>The keyword arguments of the three \<open>MenuItem(...)\<close> calls of \<open>get_menu\<close>.\<close>

definition menu_default_args :: "doc list" where
  "menu_default_args =
     [[(''name'', PStr ''City Classic Shawarma''),
       (''description'', PStr ''Fire-grilled chicken, garlic sauce, pickles, city herbs.''),
       (''price'', PFloat (Finite (1195 / 100))),
       (''category'', PStr ''wraps''),
       (''image'', PStr ''https://images.unsplash.com/photo-1604908554039-955f8a19a34b?q=80&w=1200&auto=format&fit=crop''),
       (''media'', PStr ''https://cdn.coverr.co/videos/coverr-grilling-meat-2869/1080p.mp4''),
       (''rating'', PFloat (Finite (49 / 10))),
       (''ratings_count'', PInt 542)],
      [(''name'', PStr ''Ember Beef Skewers''),
       (''description'', PStr ''Charred edges, tender center, pomegranate glaze.''),
       (''price'', PFloat (Finite (145 / 10))),
       (''category'', PStr ''skewers''),
       (''image'', PStr ''https://images.unsplash.com/photo-1616712134411-6a2dd1d8ef2e?q=80&w=1200&auto=format&fit=crop''),
       (''media'', PStr ''https://cdn.coverr.co/videos/coverr-fire-grilling-4037/1080p.mp4''),
       (''rating'', PFloat (Finite (48 / 10))),
       (''ratings_count'', PInt 311)],
      [(''name'', PStr ''Loaded City Fries''),
       (''description'', PStr ''Garlic drizzle, chili crunch, parsley rain.''),
       (''price'', PFloat (Finite (875 / 100))),
       (''category'', PStr ''fries''),
       (''image'', PStr ''https://images.unsplash.com/photo-1546549039-49d3c2d6d3d2?q=80&w=1200&auto=format&fit=crop''),
       (''media'', PStr ''https://cdn.coverr.co/videos/coverr-close-up-of-french-fries-1550/1080p.mp4''),
       (''rating'', PFloat (Finite (47 / 10))),
       (''ratings_count'', PInt 228)]]"

text \<open>The three objects those calls build: the value of \<open>defaults\<close>.\<close>

definition menu_defaults :: "MenuItem list" where
  "menu_defaults =
     [\<lparr>m_name = ''City Classic Shawarma'',
       m_description = Some ''Fire-grilled chicken, garlic sauce, pickles, city herbs.'',
       m_price = Finite (1195 / 100),
       m_category = ''wraps'',
       m_image = Some ''https://images.unsplash.com/photo-1604908554039-955f8a19a34b?q=80&w=1200&auto=format&fit=crop'',
       m_media = Some ''https://cdn.coverr.co/videos/coverr-grilling-meat-2869/1080p.mp4'',
       m_rating = Finite (49 / 10),
       m_ratings_count = 542\<rparr>,
      \<lparr>m_name = ''Ember Beef Skewers'',
       m_description = Some ''Charred edges, tender center, pomegranate glaze.'',
       m_price = Finite (145 / 10),
       m_category = ''skewers'',
       m_image = Some ''https://images.unsplash.com/photo-1616712134411-6a2dd1d8ef2e?q=80&w=1200&auto=format&fit=crop'',
       m_media = Some ''https://cdn.coverr.co/videos/coverr-fire-grilling-4037/1080p.mp4'',
       m_rating = Finite (48 / 10),
       m_ratings_count = 311\<rparr>,
      \<lparr>m_name = ''Loaded City Fries'',
       m_description = Some ''Garlic drizzle, chili crunch, parsley rain.'',
       m_price = Finite (875 / 100),
       m_category = ''fries'',
       m_image = Some ''https://images.unsplash.com/photo-1546549039-49d3c2d6d3d2?q=80&w=1200&auto=format&fit=crop'',
       m_media = Some ''https://cdn.coverr.co/videos/coverr-close-up-of-french-fries-1550/1080p.mp4'',
       m_rating = Finite (47 / 10),
       m_ratings_count = 228\<rparr>]"

text \<open>
  \<open>defaults\<close> is built before the \<open>try\<close>: a default that did not validate would leave
  the handler as an exception. Inside the \<open>try\<close>, every exception gives \<open>defaults\<close>.
\<close>

definition get_menu :: "'w database \<Rightarrow> strparse \<Rightarrow> 'w \<Rightarrow> (exn + MenuItem list, 'w) outcome" where
  "get_menu D P w =
     (case map_exn (validate_MenuItem P) menu_default_args of
        Inl e \<Rightarrow> \<lparr>result = Inl e, world = w, calls = []\<rparr>
      | Inr defaults \<Rightarrow>
          (case import_db D w of
             Inl e \<Rightarrow> \<lparr>result = Inr defaults, world = w, calls = []\<rparr>
           | Inr DbNone \<Rightarrow> \<lparr>result = Inr defaults, world = w, calls = []\<rparr>
           | Inr DbHandle \<Rightarrow>
               (case db_find D ''menuitem'' w of
                  Inl e \<Rightarrow> \<lparr>result = Inr defaults, world = w, calls = [Find ''menuitem'']\<rparr>
                | Inr docs \<Rightarrow>
                    if docs = [] then
                      (let dumped = map model_dump_MenuItem defaults in
                       case db_insert_many D ''menuitem'' dumped w of
                         (Some e, w') \<Rightarrow>
                           \<lparr>result = Inr defaults, world = w',
                            calls = [Find ''menuitem'', InsertMany ''menuitem'' dumped]\<rparr>
                       | (None, w') \<Rightarrow>
                           \<lparr>result = Inr defaults, world = w',
                            calls = [Find ''menuitem'', InsertMany ''menuitem'' dumped]\<rparr>)
                    else
                      (case map_exn (validate_MenuItem P) docs of
                         Inl e \<Rightarrow>
                           \<lparr>result = Inr defaults, world = w, calls = [Find ''menuitem'']\<rparr>
                       | Inr items \<Rightarrow>
                           \<lparr>result = Inr items, world = w, calls = [Find ''menuitem'']\<rparr>))))"

subsection \<open>GET /api/reviews\<close>

definition review_default_args :: "doc list" where
  "review_default_args =
     [[(''name'', PStr ''Layla''), (''rating'', PInt 5),
       (''quote'', PStr ''The garlic drizzle is unreal. City vibes in a wrap!''),
       (''platform'', PStr ''Google'')],
      [(''name'', PStr ''Marco''), (''rating'', PInt 5),
       (''quote'', PStr (''Beef skewers with that ember glaze''
                         @ [CHR 0xE2, CHR 0x80, CHR 0xA6] @ '' perfection.'')),
       (''platform'', PStr ''Yelp'')],
      [(''name'', PStr ''Anaya''), (''rating'', PInt 4),
       (''quote'', PStr ''Loaded fries that belong in a music video.''),
       (''platform'', PStr ''Google'')]]"

definition review_defaults :: "Review list" where
  "review_defaults =
     [\<lparr>r_name = ''Layla'', r_avatar = None, r_rating = 5,
       r_quote = ''The garlic drizzle is unreal. City vibes in a wrap!'',
       r_platform = Some ''Google''\<rparr>,
      \<lparr>r_name = ''Marco'', r_avatar = None, r_rating = 5,
       r_quote = ''Beef skewers with that ember glaze''
                 @ [CHR 0xE2, CHR 0x80, CHR 0xA6] @ '' perfection.'',
       r_platform = Some ''Yelp''\<rparr>,
      \<lparr>r_name = ''Anaya'', r_avatar = None, r_rating = 4,
       r_quote = ''Loaded fries that belong in a music video.'',
       r_platform = Some ''Google''\<rparr>]"

definition get_reviews :: "'w database \<Rightarrow> strparse \<Rightarrow> 'w \<Rightarrow> (exn + Review list, 'w) outcome" where
  "get_reviews D P w =
     (case map_exn (validate_Review P) review_default_args of
        Inl e \<Rightarrow> \<lparr>result = Inl e, world = w, calls = []\<rparr>
      | Inr defaults \<Rightarrow>
          (case import_db D w of
             Inl e \<Rightarrow> \<lparr>result = Inr defaults, world = w, calls = []\<rparr>
           | Inr DbNone \<Rightarrow> \<lparr>result = Inr defaults, world = w, calls = []\<rparr>
           | Inr DbHandle \<Rightarrow>
               (case db_find D ''review'' w of
                  Inl e \<Rightarrow> \<lparr>result = Inr defaults, world = w, calls = [Find ''review'']\<rparr>
                | Inr docs \<Rightarrow>
                    if docs = [] then
                      (let dumped = map model_dump_Review defaults in
                       case db_insert_many D ''review'' dumped w of
                         (Some e, w') \<Rightarrow>
                           \<lparr>result = Inr defaults, world = w',
                            calls = [Find ''review'', InsertMany ''review'' dumped]\<rparr>
                       | (None, w') \<Rightarrow>
                           \<lparr>result = Inr defaults, world = w',
                            calls = [Find ''review'', InsertMany ''review'' dumped]\<rparr>)
                    else
                      (case map_exn (validate_Review P) docs of
                         Inl e \<Rightarrow>
                           \<lparr>result = Inr defaults, world = w, calls = [Find ''review'']\<rparr>
                       | Inr items \<Rightarrow>
                           \<lparr>result = Inr items, world = w, calls = [Find ''review'']\<rparr>))))"

subsection \<open>POST /api/orders\<close>

record OrderResponse =
  id :: "string option"
  message :: string

definition create_order :: "'w database \<Rightarrow> Order \<Rightarrow> 'w \<Rightarrow> (exn + OrderResponse, 'w) outcome" where
  "create_order D ord w =
     (case import_create_document D w of
        Some e \<Rightarrow>
          \<lparr>result = Inr \<lparr>id = None, message = ''Order received (demo mode). We'll start the grill!''\<rparr>,
           world = w, calls = []\<rparr>
      | None \<Rightarrow>
          (case create_document D ''order'' ord w of
             (Inl e, w') \<Rightarrow>
               \<lparr>result = Inr \<lparr>id = None,
                               message = ''Order received (demo mode). We'll start the grill!''\<rparr>,
                world = w', calls = [CreateDocument ''order'' ord]\<rparr>
           | (Inr order_id, w') \<Rightarrow>
               \<lparr>result = Inr \<lparr>id = Some order_id,
                               message = ''Order received. We'll start the grill!''\<rparr>,
                world = w', calls = [CreateDocument ''order'' ord]\<rparr>))"

subsection \<open>The framework around a handler\<close>

text \<open>
  FastAPI answers 200 with what the handler returns and 500 when an exception leaves it.
  A body parameter of type \<open>Order\<close> is validated before the handler runs: a body that is
  not an object, or does not validate, is answered 422 and the handler is not called.
\<close>

datatype 'a http = Http200 'a | Http422 exn | Http500 exn

definition respond :: "(exn + 'a, 'w) outcome \<Rightarrow> ('a http, 'w) outcome" where
  "respond r =
     \<lparr>result = (case result r of Inl e \<Rightarrow> Http500 e | Inr x \<Rightarrow> Http200 x),
      world = world r, calls = calls r\<rparr>"

definition get_api_menu :: "'w database \<Rightarrow> strparse \<Rightarrow> 'w \<Rightarrow> (MenuItem list http, 'w) outcome" where
  "get_api_menu D P w = respond (get_menu D P w)"

definition get_api_reviews :: "'w database \<Rightarrow> strparse \<Rightarrow> 'w \<Rightarrow> (Review list http, 'w) outcome" where
  "get_api_reviews D P w = respond (get_reviews D P w)"

definition post_api_orders ::
  "'w database \<Rightarrow> strparse \<Rightarrow> pyval \<Rightarrow> 'w \<Rightarrow> (OrderResponse http, 'w) outcome" where
  "post_api_orders D P body w =
     (case body of
        PDict d \<Rightarrow>
          (case validate_Order P d of
             Inl e \<Rightarrow> \<lparr>result = Http422 e, world = w, calls = []\<rparr>
           | Inr ord \<Rightarrow> respond (create_order D ord w))
      | _ \<Rightarrow> \<lparr>result = Http422 (ValidationError ''body''), world = w, calls = []\<rparr>)"

subsection \<open>GET /test\<close>

text \<open>The three marks of the source's status strings, in UTF-8.\<close>

definition check_mark :: string where
  "check_mark = [CHR 0xE2, CHR 0x9C, CHR 0x85]"

definition cross_mark :: string where
  "cross_mark = [CHR 0xE2, CHR 0x9D, CHR 0x8C]"

definition warning_sign :: string where
  "warning_sign = [CHR 0xE2, CHR 0x9A, CHR 0xA0, CHR 0xEF, CHR 0xB8, CHR 0x8F]"

text \<open>
  \<open>s[:n]\<close> counts code points: a byte \<open>10xxxxxx\<close> continues the code point before it.
\<close>

definition is_continuation :: "char \<Rightarrow> bool" where
  "is_continuation c = (128 \<le> (of_char c :: nat) \<and> (of_char c :: nat) < 192)"

fun take_cp :: "nat \<Rightarrow> string \<Rightarrow> string" where
  "take_cp n [] = []"
| "take_cp n (c # cs) =
     (if is_continuation c then c # take_cp n cs
      else (case n of 0 \<Rightarrow> [] | Suc m \<Rightarrow> c # take_cp m cs))"

record test_response =
  backend :: string
  database :: string
  database_url :: "string option"
  database_name :: "string option"
  connection_status :: string
  collections :: "string list"

text \<open>The two handlers of the outer \<open>try\<close>: \<open>except ImportError\<close>, then \<open>except Exception\<close>.\<close>

fun outer_except :: "exn \<Rightarrow> test_response \<Rightarrow> test_response" where
  "outer_except (ImportError m) response =
     response\<lparr>database := cross_mark @ '' Database module not found (run enable-database first)''\<rparr>"
| "outer_except e response =
     response\<lparr>database := cross_mark @ '' Error: '' @ take_cp 50 (str_exn e)\<rparr>"

text \<open>\<open>os.getenv(k)\<close> as a condition: set and not empty.\<close>

definition env_set :: "(string \<Rightarrow> string option) \<Rightarrow> string \<Rightarrow> bool" where
  "env_set env k = (case env k of None \<Rightarrow> False | Some v \<Rightarrow> v \<noteq> [])"

definition test_database ::
  "'w database \<Rightarrow> (string \<Rightarrow> string option) \<Rightarrow> 'w \<Rightarrow> exn + test_response" where
  "test_database D env w =
     (let response0 =
            \<lparr>backend = check_mark @ '' Running'',
             database = cross_mark @ '' Not Available'',
             database_url = None,
             database_name = None,
             connection_status = ''Not Connected'',
             collections = []\<rparr>;
          response1 =
            (case import_db D w of
               Inl e \<Rightarrow> outer_except e response0
             | Inr DbNone \<Rightarrow>
                 response0\<lparr>database := warning_sign @ ''  Available but not initialized''\<rparr>
             | Inr DbHandle \<Rightarrow>
                 (let r1 = response0\<lparr>database := check_mark @ '' Available'',
                                     database_url := Some (check_mark @ '' Configured'')\<rparr>
                  in case db_name D w of
                       Some (Inl e) \<Rightarrow> outer_except e r1
                     | nm \<Rightarrow>
                         (let r2 = r1\<lparr>database_name :=
                                        (case nm of Some (Inr n) \<Rightarrow> Some n
                                         | _ \<Rightarrow> Some (check_mark @ '' Connected'')),
                                      connection_status := ''Connected''\<rparr>
                          in case list_collection_names D w of
                               Inr cs \<Rightarrow>
                                 r2\<lparr>collections := take 10 cs,
                                    database := check_mark @ '' Connected & Working''\<rparr>
                             | Inl e \<Rightarrow>
                                 r2\<lparr>database := warning_sign @ ''  Connected but Error: ''
                                                  @ take_cp 50 (str_exn e)\<rparr>)))
      in Inr (response1\<lparr>
           database_url :=
             Some (if env_set env ''DATABASE_URL'' then check_mark @ '' Set''
                   else cross_mark @ '' Not Set''),
           database_name :=
             Some (if env_set env ''DATABASE_NAME'' then check_mark @ '' Set''
                   else cross_mark @ '' Not Set'')\<rparr>))"

subsection \<open>GET /schema\<close>

text \<open>
  \<open>model_json_schema()\<close> of a class, abridged to what identifies the record shape: its
  title (the class name), its properties, the required ones, and the classes it nests
  under \<open>$defs\<close>.
\<close>

record json_schema =
  title :: string
  properties :: "string list"
  required :: "string list"
  defs :: "string list"

definition User_schema :: json_schema where
  "User_schema =
     \<lparr>title = ''User'', properties = [''name'', ''email'', ''address'', ''age'', ''is_active''],
      required = [''name'', ''email'', ''address''], defs = []\<rparr>"

definition Product_schema :: json_schema where
  "Product_schema =
     \<lparr>title = ''Product'',
      properties = [''title'', ''description'', ''price'', ''category'', ''in_stock''],
      required = [''title'', ''price'', ''category''], defs = []\<rparr>"

definition MenuItem_schema :: json_schema where
  "MenuItem_schema =
     \<lparr>title = MenuItem_name,
      properties = [''name'', ''description'', ''price'', ''category'', ''image'', ''media'',
                    ''rating'', ''ratings_count''],
      required = [''name'', ''price'', ''category''], defs = []\<rparr>"

definition Review_schema :: json_schema where
  "Review_schema =
     \<lparr>title = Review_name,
      properties = [''name'', ''avatar'', ''rating'', ''quote'', ''platform''],
      required = [''name'', ''rating'', ''quote''], defs = []\<rparr>"

definition OrderItem_schema :: json_schema where
  "OrderItem_schema =
     \<lparr>title = ''OrderItem'',
      properties = [''item_id'', ''name'', ''price'', ''quantity'', ''options''],
      required = [''name'', ''price''], defs = []\<rparr>"

definition Order_schema :: json_schema where
  "Order_schema =
     \<lparr>title = Order_name,
      properties = [''items'', ''subtotal'', ''tax'', ''total'', ''customer_name'',
                    ''customer_phone'', ''notes''],
      required = [''items'', ''subtotal'', ''tax'', ''total''], defs = [''OrderItem'']\<rparr>"

definition get_schema :: "(string \<times> json_schema) list" where
  "get_schema =
     [(''menuitem'', MenuItem_schema),
      (''review'', Review_schema),
      (''order'', Order_schema)]"

section \<open>A document store\<close>

text \<open>
  Modelled from the spec: the module \<open>database\<close>, which the repository does not hold.
  The spec gives its contract: \<open>find(filter, projection)\<close> returns the documents of a
  collection, \<open>insert_many(documents)\<close> adds documents to it and
  \<open>create_document(collection_name, record)\<close> stores a record and returns its
  identifier. The store below keeps the documents of each collection in insertion order,
  gives each stored document an \<open>_id\<close> from a counter, and leaves \<open>_id\<close> out of what
  \<open>find\<close> returns, as the projection \<open>{"_id": 0}\<close> asks.
\<close>

record store =
  module_present :: bool
  connected :: bool
  contents :: "(string \<times> doc list) list"
  next_id :: nat

definition documents :: "store \<Rightarrow> string \<Rightarrow> doc list" where
  "documents s c = (case map_of (contents s) c of None \<Rightarrow> [] | Some ds \<Rightarrow> ds)"

fun with_ids :: "nat \<Rightarrow> doc list \<Rightarrow> doc list" where
  "with_ids n [] = []"
| "with_ids n (d # ds) = ((''_id'', PInt (int n)) # d) # with_ids (Suc n) ds"

definition store_insert :: "string \<Rightarrow> doc list \<Rightarrow> store \<Rightarrow> store" where
  "store_insert c ds s =
     s\<lparr>contents := (c, documents s c @ with_ids (next_id s) ds)
                    # filter (\<lambda>p. fst p \<noteq> c) (contents s),
       next_id := next_id s + length ds\<rparr>"

definition store_import_db :: "store \<Rightarrow> exn + dbref" where
  "store_import_db s =
     (if \<not> module_present s then Inl (ImportError ''No module named database'')
      else if connected s then Inr DbHandle else Inr DbNone)"

definition store_find :: "string \<Rightarrow> store \<Rightarrow> exn + doc list" where
  "store_find c s = Inr (map (filter (\<lambda>p. fst p \<noteq> ''_id'')) (documents s c))"

definition store_insert_many :: "string \<Rightarrow> doc list \<Rightarrow> store \<Rightarrow> exn option \<times> store" where
  "store_insert_many c ds s = (None, store_insert c ds s)"

text \<open>The identifier of a stored record: its number, in unary.\<close>

definition store_create_document :: "string \<Rightarrow> Order \<Rightarrow> store \<Rightarrow> (exn + string) \<times> store" where
  "store_create_document c ord s =
     (if connected s
      then (Inr (replicate (Suc (next_id s)) CHR ''I''), store_insert c [model_dump_Order ord] s)
      else (Inl (OtherError ''Database not available''), s))"

definition store_database :: "store database" where
  "store_database =
     \<lparr>import_db = store_import_db,
      db_find = store_find,
      db_insert_many = store_insert_many,
      import_create_document =
        (\<lambda>s. if module_present s then None else Some (ImportError ''No module named database'')),
      create_document = store_create_document,
      db_name = (\<lambda>s. Some (Inr ''app'')),
      list_collection_names = (\<lambda>s. Inr (map fst (contents s)))\<rparr>"

definition empty_store :: store where
  "empty_store = \<lparr>module_present = True, connected = True, contents = [], next_id = 0\<rparr>"

text \<open>A parser that takes plain decimal digits only, for the examples.\<close>

definition digit_val :: "char \<Rightarrow> nat option" where
  "digit_val c =
     (let n = (of_char c :: nat) in if 48 \<le> n \<and> n \<le> 57 then Some (n - 48) else None)"

fun digits_val :: "nat \<Rightarrow> string \<Rightarrow> nat option" where
  "digits_val acc [] = Some acc"
| "digits_val acc (c # cs) =
     (case digit_val c of None \<Rightarrow> None | Some k \<Rightarrow> digits_val (10 * acc + k) cs)"

definition digits_parse :: strparse where
  "digits_parse =
     \<lparr>str_to_int = (\<lambda>s. if s = [] then None else map_option int (digits_val 0 s)),
      str_to_float =
        (\<lambda>s. if s = [] then None else map_option (\<lambda>n. Finite (of_nat n)) (digits_val 0 s))\<rparr>"

text \<open>Example worlds: no module \<open>database\<close> at all, and a module whose \<open>db\<close> is \<open>None\<close>.\<close>

definition no_module :: store where
  "no_module = \<lparr>module_present = False, connected = False, contents = [], next_id = 0\<rparr>"

definition not_connected :: store where
  "not_connected = \<lparr>module_present = True, connected = False, contents = [], next_id = 0\<rparr>"

text \<open>The empty store after the defaults of one collection were inserted.\<close>

definition seeded_menu :: store where
  "seeded_menu = store_insert ''menuitem'' (map model_dump_MenuItem menu_defaults) empty_store"

definition seeded_reviews :: store where
  "seeded_reviews = store_insert ''review'' (map model_dump_Review review_defaults) empty_store"


text \<open>A store holding one document that is no \<open>MenuItem\<close> and one that is no \<open>Review\<close>.\<close>

definition invalid_documents :: store where
  "invalid_documents =
     \<lparr>module_present = True, connected = True,
      contents =
        [(''menuitem'', [[(''_id'', PInt 0), (''name'', PStr ''Tea''),
                          (''price'', PFloat (Finite (- 1))), (''category'', PStr ''drinks'')]]),
         (''review'', [[(''_id'', PInt 1), (''name'', PStr ''Zed''), (''rating'', PInt 6),
                        (''quote'', PStr ''Fine'')]])],
      next_id = 2\<rparr>"

text \<open>An order whose numbers are negative and do not add up, as a body and as a record.\<close>

definition order_body_example :: doc where
  "order_body_example =
     [(''items'', PList [PDict [(''name'', PStr ''Wrap''), (''price'', PFloat (Finite (- 3))),
                                (''quantity'', PInt 0)]]),
      (''subtotal'', PFloat (Finite (- 10))),
      (''tax'', PFloat (Finite (- 1))),
      (''total'', PFloat (Finite (- 5)))]"

definition order_example :: Order where
  "order_example =
     \<lparr>o_items = [\<lparr>i_item_id = None, i_name = ''Wrap'', i_price = Finite (- 3), i_quantity = 0,
                   i_options = None\<rparr>],
      o_subtotal = Finite (- 10), o_tax = Finite (- 1), o_total = Finite (- 5),
      o_customer_name = None, o_customer_phone = None, o_notes = None\<rparr>"


section \<open>Basic facts\<close>

lemma menu_default_args_valid:
  "map_exn (validate_MenuItem P) menu_default_args = Inr menu_defaults"
  by (simp add: menu_default_args_def menu_defaults_def validate_MenuItem_def bind_exn_def
      req_str_def opt_str_def float_field_def int_field_def)

lemma review_default_args_valid:
  "map_exn (validate_Review P) review_default_args = Inr review_defaults"
  by (simp add: review_default_args_def review_defaults_def validate_Review_def bind_exn_def
      req_str_def opt_str_def int_field_def)

lemma menu_defaults_roundtrip:
  "map_exn (validate_MenuItem P) (map model_dump_MenuItem menu_defaults) = Inr menu_defaults"
  by (simp add: menu_defaults_def model_dump_MenuItem_def dump_opt_str_def
      validate_MenuItem_def bind_exn_def req_str_def opt_str_def float_field_def int_field_def)

lemma review_defaults_roundtrip:
  "map_exn (validate_Review P) (map model_dump_Review review_defaults) = Inr review_defaults"
  by (simp add: review_defaults_def model_dump_Review_def dump_opt_str_def
      validate_Review_def bind_exn_def req_str_def opt_str_def int_field_def)

lemma menu_defaults_nonempty: "menu_defaults \<noteq> []"
  by (simp add: menu_defaults_def)

lemma review_defaults_nonempty: "review_defaults \<noteq> []"
  by (simp add: review_defaults_def)

lemma map_exn_nonempty: "map_exn f xs = Inr ys \<Longrightarrow> xs \<noteq> [] \<Longrightarrow> ys \<noteq> []"
  by (cases xs) (auto simp: bind_exn_def split: sum.splits)

lemma map_exn_fails: "x \<in> set xs \<Longrightarrow> isl (f x) \<Longrightarrow> isl (map_exn f xs)"
  by (induction xs) (auto simp: bind_exn_def split: sum.splits)

lemma result_respond:
  "result (respond r) = (case result r of Inl e \<Rightarrow> Http500 e | Inr x \<Rightarrow> Http200 x)"
  by (simp add: respond_def)

lemma calls_respond: "calls (respond r) = calls r"
  by (simp add: respond_def)

lemma world_respond: "world (respond r) = world r"
  by (simp add: respond_def)

subsection \<open>What the two reading handlers return\<close>

lemma get_menu_result:
  "result (get_menu D P w) =
     (case import_db D w of
        Inl e \<Rightarrow> Inr menu_defaults
      | Inr DbNone \<Rightarrow> Inr menu_defaults
      | Inr DbHandle \<Rightarrow>
          (case db_find D ''menuitem'' w of
             Inl e \<Rightarrow> Inr menu_defaults
           | Inr docs \<Rightarrow>
               if docs = [] then Inr menu_defaults
               else (case map_exn (validate_MenuItem P) docs of
                       Inl e \<Rightarrow> Inr menu_defaults
                     | Inr items \<Rightarrow> Inr items)))"
  by (simp add: get_menu_def menu_default_args_valid Let_def
      split: sum.split dbref.split prod.split option.split)

lemma get_reviews_result:
  "result (get_reviews D P w) =
     (case import_db D w of
        Inl e \<Rightarrow> Inr review_defaults
      | Inr DbNone \<Rightarrow> Inr review_defaults
      | Inr DbHandle \<Rightarrow>
          (case db_find D ''review'' w of
             Inl e \<Rightarrow> Inr review_defaults
           | Inr docs \<Rightarrow>
               if docs = [] then Inr review_defaults
               else (case map_exn (validate_Review P) docs of
                       Inl e \<Rightarrow> Inr review_defaults
                     | Inr items \<Rightarrow> Inr items)))"
  by (simp add: get_reviews_def review_default_args_valid Let_def
      split: sum.split dbref.split prod.split option.split)

lemma get_menu_nonempty: "\<exists>xs. result (get_menu D P w) = Inr xs \<and> xs \<noteq> []"
proof -
  have "result (get_menu D P w) = Inr menu_defaults
        \<or> (\<exists>docs items. docs \<noteq> [] \<and> map_exn (validate_MenuItem P) docs = Inr items
              \<and> result (get_menu D P w) = Inr items)"
    by (simp add: get_menu_result split: sum.split dbref.split, blast)
  then show ?thesis
    using map_exn_nonempty menu_defaults_nonempty by blast
qed

lemma get_reviews_nonempty: "\<exists>xs. result (get_reviews D P w) = Inr xs \<and> xs \<noteq> []"
proof -
  have "result (get_reviews D P w) = Inr review_defaults
        \<or> (\<exists>docs items. docs \<noteq> [] \<and> map_exn (validate_Review P) docs = Inr items
              \<and> result (get_reviews D P w) = Inr items)"
    by (simp add: get_reviews_result split: sum.split dbref.split, blast)
  then show ?thesis
    using map_exn_nonempty review_defaults_nonempty by blast
qed

lemma get_menu_fallback:
  "isl (import_db D w) \<or> import_db D w = Inr DbNone
     \<or> isl (db_find D ''menuitem'' w) \<or> db_find D ''menuitem'' w = Inr []
   \<Longrightarrow> result (get_menu D P w) = Inr menu_defaults"
  by (auto simp add: get_menu_result split: sum.splits dbref.splits)

lemma get_reviews_fallback:
  "isl (import_db D w) \<or> import_db D w = Inr DbNone
     \<or> isl (db_find D ''review'' w) \<or> db_find D ''review'' w = Inr []
   \<Longrightarrow> result (get_reviews D P w) = Inr review_defaults"
  by (auto simp add: get_reviews_result split: sum.splits dbref.splits)

subsection \<open>What the order handler returns\<close>

lemma create_order_result:
  "result (create_order D ord w) =
     (case import_create_document D w of
        Some e \<Rightarrow> Inr \<lparr>id = None, message = ''Order received (demo mode). We'll start the grill!''\<rparr>
      | None \<Rightarrow>
          (case fst (create_document D ''order'' ord w) of
             Inl e \<Rightarrow> Inr \<lparr>id = None, message = ''Order received (demo mode). We'll start the grill!''\<rparr>
           | Inr i \<Rightarrow> Inr \<lparr>id = Some i, message = ''Order received. We'll start the grill!''\<rparr>))"
  by (simp add: create_order_def split: option.split prod.split sum.split)

lemma create_order_returns: "\<exists>resp. result (create_order D ord w) = Inr resp \<and> message resp \<noteq> []"
  by (simp add: create_order_result split: option.split sum.split)

lemma post_api_orders_valid:
  "validate_Order P d = Inr ord \<Longrightarrow>
   result (post_api_orders D P (PDict d) w) =
     (case result (create_order D ord w) of Inl e \<Rightarrow> Http500 e | Inr x \<Rightarrow> Http200 x)"
  by (simp add: post_api_orders_def result_respond)

lemma order_body_example_valid: "validate_Order P order_body_example = Inr order_example"
  by (simp add: order_body_example_def order_example_def validate_Order_def items_field_def
      validate_OrderItem_def bind_exn_def req_str_def opt_str_def opt_dict_def float_field_def
      int_field_def)

subsection \<open>The persistence calls of the handlers\<close>

lemma get_menu_calls:
  "calls (get_menu D P w) =
     (case import_db D w of
        Inl e \<Rightarrow> []
      | Inr DbNone \<Rightarrow> []
      | Inr DbHandle \<Rightarrow>
          (case db_find D ''menuitem'' w of
             Inl e \<Rightarrow> [Find ''menuitem'']
           | Inr docs \<Rightarrow>
               if docs = []
               then [Find ''menuitem'',
                     InsertMany ''menuitem'' (map model_dump_MenuItem menu_defaults)]
               else [Find ''menuitem'']))"
  by (simp add: get_menu_def menu_default_args_valid Let_def
      split: sum.split dbref.split prod.split option.split)

lemma get_reviews_calls:
  "calls (get_reviews D P w) =
     (case import_db D w of
        Inl e \<Rightarrow> []
      | Inr DbNone \<Rightarrow> []
      | Inr DbHandle \<Rightarrow>
          (case db_find D ''review'' w of
             Inl e \<Rightarrow> [Find ''review'']
           | Inr docs \<Rightarrow>
               if docs = []
               then [Find ''review'',
                     InsertMany ''review'' (map model_dump_Review review_defaults)]
               else [Find ''review'']))"
  by (simp add: get_reviews_def review_default_args_valid Let_def
      split: sum.split dbref.split prod.split option.split)

lemma get_menu_world:
  "world (get_menu D P w) =
     (case import_db D w of
        Inl e \<Rightarrow> w
      | Inr DbNone \<Rightarrow> w
      | Inr DbHandle \<Rightarrow>
          (case db_find D ''menuitem'' w of
             Inl e \<Rightarrow> w
           | Inr docs \<Rightarrow>
               if docs = []
               then snd (db_insert_many D ''menuitem'' (map model_dump_MenuItem menu_defaults) w)
               else w))"
  by (simp add: get_menu_def menu_default_args_valid Let_def
      split: sum.split dbref.split prod.split option.split)

lemma get_reviews_world:
  "world (get_reviews D P w) =
     (case import_db D w of
        Inl e \<Rightarrow> w
      | Inr DbNone \<Rightarrow> w
      | Inr DbHandle \<Rightarrow>
          (case db_find D ''review'' w of
             Inl e \<Rightarrow> w
           | Inr docs \<Rightarrow>
               if docs = []
               then snd (db_insert_many D ''review'' (map model_dump_Review review_defaults) w)
               else w))"
  by (simp add: get_reviews_def review_default_args_valid Let_def
      split: sum.split dbref.split prod.split option.split)

lemma create_order_calls:
  "calls (create_order D ord w) =
     (case import_create_document D w of
        Some e \<Rightarrow> []
      | None \<Rightarrow> [CreateDocument ''order'' ord])"
  by (simp add: create_order_def split: option.split prod.split sum.split)

lemma lower_names:
  "lower MenuItem_name = ''menuitem''" "lower Review_name = ''review''"
  "lower Order_name = ''order''"
  by code_simp+


lemma insert_only_when_empty_menu:
  "list_ex is_insert (calls (get_menu D P w)) \<Longrightarrow> db_find D ''menuitem'' w = Inr []"
  by (simp add: get_menu_calls split: sum.splits dbref.splits if_splits)

lemma insert_only_when_empty_reviews:
  "list_ex is_insert (calls (get_reviews D P w)) \<Longrightarrow> db_find D ''review'' w = Inr []"
  by (simp add: get_reviews_calls split: sum.splits dbref.splits if_splits)

subsection \<open>The document store after seeding\<close>

lemma store_find_seeded_menu:
  "db_find store_database ''menuitem'' seeded_menu = Inr (map model_dump_MenuItem menu_defaults)"
  by (simp add: store_database_def store_find_def documents_def seeded_menu_def
      store_insert_def empty_store_def menu_defaults_def model_dump_MenuItem_def
      dump_opt_str_def)

lemma store_find_seeded_reviews:
  "db_find store_database ''review'' seeded_reviews = Inr (map model_dump_Review review_defaults)"
  by (simp add: store_database_def store_find_def documents_def seeded_reviews_def
      store_insert_def empty_store_def review_defaults_def model_dump_Review_def
      dump_opt_str_def)

subsection \<open>The handlers of the diagnostic probe\<close>

lemma database_outer_except:
  "database (outer_except e r) =
     (case e of
        ImportError m \<Rightarrow> cross_mark @ '' Database module not found (run enable-database first)''
      | _ \<Rightarrow> cross_mark @ '' Error: '' @ take_cp 50 (str_exn e))"
  by (cases e) simp_all

lemma outer_except_other_fields:
  "backend (outer_except e r) = backend r"
  "connection_status (outer_except e r) = connection_status r"
  "collections (outer_except e r) = collections r"
  by (cases e; simp)+

section \<open>The claims\<close>

text \<open>
  C1. Whatever the persistence does, \<open>GET /api/menu\<close> and \<open>GET /api/reviews\<close> answer
  200 with a list that is not empty. When the module cannot be imported, when \<open>db\<close> is
  \<open>None\<close>, when the read raises and when the collection is empty (whether or not the
  insert that follows raises), the list is the three default records.
\<close>

theorem menu_and_reviews_never_empty:
  "(\<exists>xs. result (get_api_menu D P w) = Http200 xs \<and> xs \<noteq> [])
   \<and> (\<exists>ys. result (get_api_reviews D P w) = Http200 ys \<and> ys \<noteq> [])
   \<and> length menu_defaults = 3 \<and> length review_defaults = 3
   \<and> (isl (import_db D w) \<or> import_db D w = Inr DbNone
        \<or> isl (db_find D ''menuitem'' w) \<or> db_find D ''menuitem'' w = Inr []
      \<longrightarrow> result (get_api_menu D P w) = Http200 menu_defaults)
   \<and> (isl (import_db D w) \<or> import_db D w = Inr DbNone
        \<or> isl (db_find D ''review'' w) \<or> db_find D ''review'' w = Inr []
      \<longrightarrow> result (get_api_reviews D P w) = Http200 review_defaults)"
proof -
  from get_menu_nonempty [of D P w]
  obtain xs where xs: "result (get_menu D P w) = Inr xs" "xs \<noteq> []"
    by (elim exE conjE)
  from get_reviews_nonempty [of D P w]
  obtain ys where ys: "result (get_reviews D P w) = Inr ys" "ys \<noteq> []"
    by (elim exE conjE)
  have "result (get_api_menu D P w) = Http200 xs"
    by (simp add: get_api_menu_def result_respond xs(1))
  with xs(2) have a: "\<exists>xs. result (get_api_menu D P w) = Http200 xs \<and> xs \<noteq> []"
    by (intro exI conjI)
  have "result (get_api_reviews D P w) = Http200 ys"
    by (simp add: get_api_reviews_def result_respond ys(1))
  with ys(2) have b: "\<exists>ys. result (get_api_reviews D P w) = Http200 ys \<and> ys \<noteq> []"
    by (intro exI conjI)
  have c: "length menu_defaults = 3" "length review_defaults = 3"
    by (simp_all add: menu_defaults_def review_defaults_def)
  have d: "isl (import_db D w) \<or> import_db D w = Inr DbNone
        \<or> isl (db_find D ''menuitem'' w) \<or> db_find D ''menuitem'' w = Inr []
      \<longrightarrow> result (get_api_menu D P w) = Http200 menu_defaults"
    using get_menu_fallback [of D w P] by (simp add: get_api_menu_def result_respond)
  have e: "isl (import_db D w) \<or> import_db D w = Inr DbNone
        \<or> isl (db_find D ''review'' w) \<or> db_find D ''review'' w = Inr []
      \<longrightarrow> result (get_api_reviews D P w) = Http200 review_defaults"
    using get_reviews_fallback [of D w P] by (simp add: get_api_reviews_def result_respond)
  show ?thesis
    by (intro conjI a b c d e)
qed

theorem menu_and_reviews_never_empty_witness:
  "isl (import_db store_database no_module)
   \<and> result (get_api_menu store_database digits_parse no_module) = Http200 menu_defaults
   \<and> result (get_api_reviews store_database digits_parse no_module) = Http200 review_defaults
   \<and> import_db store_database not_connected = Inr DbNone
   \<and> result (get_api_menu store_database digits_parse not_connected) = Http200 menu_defaults
   \<and> result (get_api_reviews store_database digits_parse not_connected)
       = Http200 review_defaults"
proof -
  have h: "isl (import_db store_database no_module)"
    by (simp add: store_database_def store_import_db_def no_module_def)
  have k: "import_db store_database not_connected = Inr DbNone"
    by (simp add: store_database_def store_import_db_def not_connected_def)
  show ?thesis
    using h k menu_and_reviews_never_empty [of store_database digits_parse no_module]
      menu_and_reviews_never_empty [of store_database digits_parse not_connected]
    by simp
qed

text \<open>
  C2. A body that validates as an \<open>Order\<close> is answered 200 with a message, and the handler
  returns rather than raises: with the identifier and the confirmation when
  \<open>create_document\<close> returns one, with no identifier and the demo-mode message when
  the import or \<open>create_document\<close> raises.
\<close>

theorem create_order_always_answers:
  "validate_Order P d = Inr ord \<Longrightarrow>
     (\<exists>resp. result (create_order D ord w) = Inr resp
        \<and> result (post_api_orders D P (PDict d) w) = Http200 resp \<and> message resp \<noteq> [])
     \<and> (\<forall>i. import_create_document D w = None
             \<and> fst (create_document D ''order'' ord w) = Inr i
           \<longrightarrow> result (post_api_orders D P (PDict d) w)
                 = Http200 \<lparr>id = Some i, message = ''Order received. We'll start the grill!''\<rparr>)
     \<and> (import_create_document D w \<noteq> None \<or> isl (fst (create_document D ''order'' ord w))
           \<longrightarrow> result (post_api_orders D P (PDict d) w)
                 = Http200 \<lparr>id = None,
                            message = ''Order received (demo mode). We'll start the grill!''\<rparr>)"
proof -
  assume v: "validate_Order P d = Inr ord"
  from create_order_returns [of D ord w]
  obtain resp where r: "result (create_order D ord w) = Inr resp" "message resp \<noteq> []"
    by (elim exE conjE)
  have "result (post_api_orders D P (PDict d) w) = Http200 resp"
    by (simp add: post_api_orders_valid [OF v] r(1))
  with r have a: "\<exists>resp. result (create_order D ord w) = Inr resp
        \<and> result (post_api_orders D P (PDict d) w) = Http200 resp \<and> message resp \<noteq> []"
    by (intro exI conjI)
  have b: "\<forall>i. import_create_document D w = None
             \<and> fst (create_document D ''order'' ord w) = Inr i
           \<longrightarrow> result (post_api_orders D P (PDict d) w)
                 = Http200 \<lparr>id = Some i, message = ''Order received. We'll start the grill!''\<rparr>"
    by (simp add: post_api_orders_valid [OF v] create_order_result)
  have c: "import_create_document D w \<noteq> None \<or> isl (fst (create_document D ''order'' ord w))
           \<longrightarrow> result (post_api_orders D P (PDict d) w)
                 = Http200 \<lparr>id = None,
                            message = ''Order received (demo mode). We'll start the grill!''\<rparr>"
    by (auto simp add: post_api_orders_valid [OF v] create_order_result
        split: option.split sum.split)
  show ?thesis
    by (intro conjI a b c)
qed


theorem create_order_always_answers_witness:
  "validate_Order digits_parse order_body_example = Inr order_example
   \<and> result (post_api_orders store_database digits_parse (PDict order_body_example) empty_store)
       = Http200 \<lparr>id = Some ''I'', message = ''Order received. We'll start the grill!''\<rparr>
   \<and> result (post_api_orders store_database digits_parse (PDict order_body_example) no_module)
       = Http200 \<lparr>id = None, message = ''Order received (demo mode). We'll start the grill!''\<rparr>"
proof -
  have v: "validate_Order digits_parse order_body_example = Inr order_example"
    by (rule order_body_example_valid)
  have i1: "import_create_document store_database empty_store = None"
    by (simp add: store_database_def empty_store_def)
  have i2: "fst (create_document store_database ''order'' order_example empty_store) = Inr ''I''"
    by (simp add: store_database_def store_create_document_def empty_store_def)
  have i3: "import_create_document store_database no_module \<noteq> None"
    by (simp add: store_database_def no_module_def)
  show ?thesis
    using v i1 i2 i3 create_order_always_answers [OF v, of store_database empty_store]
      create_order_always_answers [OF v, of store_database no_module]
    by simp
qed

text \<open>
  C3. A document whose \<open>rating\<close> reads as an integer outside 1..5 (6, say) is not a
  \<open>Review\<close>, and one whose \<open>price\<close> reads as a negative number is not a \<open>MenuItem\<close>;
  whatever validates is within the bounds. Conversely the fields of a \<open>Review\<close> with a
  rating in 1..5, and of a \<open>MenuItem\<close> with a price of at least 0, a rating in 0..5 and a
  ratings count of at least 0, validate and give that record back.
\<close>

theorem field_constraints_enforced:
  "(map_of d ''rating'' = Some v \<and> as_int P v = Some n \<and> (n < 1 \<or> 5 < n)
      \<longrightarrow> isl (validate_Review P d))
   \<and> isl (validate_Review P [(''name'', PStr nm), (''rating'', PInt 6), (''quote'', PStr q)])
   \<and> (map_of d' ''price'' = Some v' \<and> as_float P v' = Some x \<and> float_lt x 0
      \<longrightarrow> isl (validate_MenuItem P d'))
   \<and> (validate_Review P d = Inr r' \<longrightarrow> 1 \<le> r_rating r' \<and> r_rating r' \<le> 5)
   \<and> (validate_MenuItem P d' = Inr m'
      \<longrightarrow> float_ge (m_price m') 0 \<and> float_ge (m_rating m') 0 \<and> float_le (m_rating m') 5
          \<and> 0 \<le> m_ratings_count m')
   \<and> (1 \<le> r_rating r \<and> r_rating r \<le> 5 \<longrightarrow> validate_Review P (model_dump_Review r) = Inr r)
   \<and> (float_ge (m_price m) 0 \<and> float_ge (m_rating m) 0 \<and> float_le (m_rating m) 5
        \<and> 0 \<le> m_ratings_count m
      \<longrightarrow> validate_MenuItem P (model_dump_MenuItem m) = Inr m)"
proof -
  have a: "map_of d ''rating'' = Some v \<and> as_int P v = Some n \<and> (n < 1 \<or> 5 < n)
      \<longrightarrow> isl (validate_Review P d)"
    by (auto simp add: validate_Review_def bind_exn_def int_field_def split: sum.split)
  have b: "isl (validate_Review P [(''name'', PStr nm), (''rating'', PInt 6), (''quote'', PStr q)])"
    by (simp add: validate_Review_def bind_exn_def int_field_def req_str_def opt_str_def)
  have lt: "float_lt x 0 \<Longrightarrow> \<not> float_ge x 0"
    by (cases x) auto
  have c: "map_of d' ''price'' = Some v' \<and> as_float P v' = Some x \<and> float_lt x 0
      \<longrightarrow> isl (validate_MenuItem P d')"
    using lt by (auto simp add: validate_MenuItem_def bind_exn_def float_field_def split: sum.split)
  have e: "validate_Review P d = Inr r' \<longrightarrow> 1 \<le> r_rating r' \<and> r_rating r' \<le> 5"
    by (auto simp add: validate_Review_def bind_exn_def int_field_def
        split: sum.splits option.splits if_splits)
  have f: "validate_MenuItem P d' = Inr m'
      \<longrightarrow> float_ge (m_price m') 0 \<and> float_ge (m_rating m') 0 \<and> float_le (m_rating m') 5
          \<and> 0 \<le> m_ratings_count m'"
    by (auto simp add: validate_MenuItem_def bind_exn_def float_field_def int_field_def
        split: sum.splits option.splits if_splits)
  have g: "1 \<le> r_rating r \<and> r_rating r \<le> 5 \<longrightarrow> validate_Review P (model_dump_Review r) = Inr r"
    by (simp add: validate_Review_def model_dump_Review_def dump_opt_str_def bind_exn_def
        int_field_def req_str_def opt_str_def split: option.split)
  have h: "float_ge (m_price m) 0 \<and> float_ge (m_rating m) 0 \<and> float_le (m_rating m) 5
        \<and> 0 \<le> m_ratings_count m
      \<longrightarrow> validate_MenuItem P (model_dump_MenuItem m) = Inr m"
    by (simp add: validate_MenuItem_def model_dump_MenuItem_def dump_opt_str_def bind_exn_def
        float_field_def int_field_def req_str_def opt_str_def split: option.split)
  show ?thesis
    by (intro conjI a b c e f g h)
qed


theorem field_constraints_enforced_witness:
  "isl (validate_Review digits_parse
          [(''name'', PStr ''Zed''), (''rating'', PInt 6), (''quote'', PStr ''Fine'')])
   \<and> isl (validate_MenuItem digits_parse
          [(''name'', PStr ''Tea''), (''price'', PFloat (Finite (- 1))),
           (''category'', PStr ''drinks'')])
   \<and> validate_Review digits_parse
        (model_dump_Review \<lparr>r_name = ''Zed'', r_avatar = None, r_rating = 5, r_quote = ''Fine'',
                            r_platform = None\<rparr>)
       = Inr \<lparr>r_name = ''Zed'', r_avatar = None, r_rating = 5, r_quote = ''Fine'',
              r_platform = None\<rparr>
   \<and> validate_MenuItem digits_parse
        (model_dump_MenuItem \<lparr>m_name = ''Tea'', m_description = None, m_price = Finite 0,
                              m_category = ''drinks'', m_image = None, m_media = None,
                              m_rating = Finite 5, m_ratings_count = 0\<rparr>)
       = Inr \<lparr>m_name = ''Tea'', m_description = None, m_price = Finite 0,
              m_category = ''drinks'', m_image = None, m_media = None,
              m_rating = Finite 5, m_ratings_count = 0\<rparr>"
  using field_constraints_enforced
    [where P = digits_parse
       and d = "[(''name'', PStr ''Zed''), (''rating'', PInt 6), (''quote'', PStr ''Fine'')]"
       and v = "PInt 6" and n = 6
       and d' = "[(''name'', PStr ''Tea''), (''price'', PFloat (Finite (- 1))),
                  (''category'', PStr ''drinks'')]"
       and v' = "PFloat (Finite (- 1))" and x = "Finite (- 1)"
       and r = "\<lparr>r_name = ''Zed'', r_avatar = None, r_rating = 5, r_quote = ''Fine'',
                 r_platform = None\<rparr>"
       and m = "\<lparr>m_name = ''Tea'', m_description = None, m_price = Finite 0,
                 m_category = ''drinks'', m_image = None, m_media = None,
                 m_rating = Finite 5, m_ratings_count = 0\<rparr>"]
  by simp

text \<open>
  C4. \<open>Order\<close> relates \<open>subtotal\<close>, \<open>tax\<close> and \<open>total\<close> in no way: a body with any three
  floats validates as soon as its items do. The example body, whose three numbers are
  negative with a total that is not the sum of the other two, validates and is answered
  200 by \<open>POST /api/orders\<close>.
\<close>

theorem order_totals_unconstrained:
  "validate_Order P [(''items'', PList its), (''subtotal'', PFloat s), (''tax'', PFloat t),
                     (''total'', PFloat tot)]
     = bind_exn (validate_items P its)
         (\<lambda>is. Inr \<lparr>o_items = is, o_subtotal = s, o_tax = t, o_total = tot,
                     o_customer_name = None, o_customer_phone = None, o_notes = None\<rparr>)
   \<and> validate_Order P order_body_example = Inr order_example
   \<and> (\<exists>s t tot. o_subtotal order_example = Finite s \<and> o_tax order_example = Finite t
         \<and> o_total order_example = Finite tot \<and> tot \<noteq> s + t \<and> s < 0 \<and> t < 0 \<and> tot < 0)
   \<and> (\<exists>resp. result (post_api_orders D P (PDict order_body_example) w) = Http200 resp)"
proof -
  have a: "validate_Order P [(''items'', PList its), (''subtotal'', PFloat s), (''tax'', PFloat t),
                     (''total'', PFloat tot)]
     = bind_exn (validate_items P its)
         (\<lambda>is. Inr \<lparr>o_items = is, o_subtotal = s, o_tax = t, o_total = tot,
                     o_customer_name = None, o_customer_phone = None, o_notes = None\<rparr>)"
    by (simp add: validate_Order_def items_field_def bind_exn_def float_field_def opt_str_def
        split: sum.split)
  have c: "\<exists>s t tot. o_subtotal order_example = Finite s \<and> o_tax order_example = Finite t
         \<and> o_total order_example = Finite tot \<and> tot \<noteq> s + t \<and> s < 0 \<and> t < 0 \<and> tot < 0"
    by (simp add: order_example_def)
  from create_order_returns [of D order_example w]
  obtain resp where r: "result (create_order D order_example w) = Inr resp"
    by (elim exE conjE)
  have "result (post_api_orders D P (PDict order_body_example) w) = Http200 resp"
    by (simp add: post_api_orders_valid [OF order_body_example_valid] r)
  then have d: "\<exists>resp. result (post_api_orders D P (PDict order_body_example) w) = Http200 resp"
    by (intro exI)
  show ?thesis
    by (intro conjI a order_body_example_valid c d)
qed

text \<open>
  C9. \<open>OrderItem\<close> bounds neither \<open>price\<close> nor \<open>quantity\<close>: an item with any float as its
  price and any integer as its quantity validates, a missing quantity is 1, and an order
  of such an item is answered 200; a \<open>MenuItem\<close> with a negative price does not validate.
\<close>

theorem order_item_unconstrained:
  "validate_OrderItem P [(''name'', PStr n), (''price'', PFloat p), (''quantity'', PInt q)]
     = Inr \<lparr>i_item_id = None, i_name = n, i_price = p, i_quantity = q, i_options = None\<rparr>
   \<and> validate_OrderItem P [(''name'', PStr n), (''price'', PFloat p)]
     = Inr \<lparr>i_item_id = None, i_name = n, i_price = p, i_quantity = 1, i_options = None\<rparr>
   \<and> (\<exists>resp. result (post_api_orders D P
                 (PDict [(''items'', PList [PDict [(''name'', PStr n), (''price'', PFloat p),
                                                  (''quantity'', PInt q)]]),
                         (''subtotal'', PFloat s), (''tax'', PFloat t), (''total'', PFloat tot)])
                 w) = Http200 resp)
   \<and> (float_lt p 0 \<longrightarrow>
        isl (validate_MenuItem P [(''name'', PStr n), (''price'', PFloat p),
                                  (''category'', PStr c)]))"
proof -
  let ?item = "\<lparr>i_item_id = None, i_name = n, i_price = p, i_quantity = q, i_options = None\<rparr>"
  let ?ord = "\<lparr>o_items = [?item], o_subtotal = s, o_tax = t, o_total = tot,
               o_customer_name = None, o_customer_phone = None, o_notes = None\<rparr>"
  let ?body = "[(''items'', PList [PDict [(''name'', PStr n), (''price'', PFloat p),
                                          (''quantity'', PInt q)]]),
                (''subtotal'', PFloat s), (''tax'', PFloat t), (''total'', PFloat tot)]"
  have a: "validate_OrderItem P [(''name'', PStr n), (''price'', PFloat p), (''quantity'', PInt q)]
     = Inr ?item"
    by (simp add: validate_OrderItem_def bind_exn_def req_str_def opt_str_def opt_dict_def
        float_field_def int_field_def)
  have b: "validate_OrderItem P [(''name'', PStr n), (''price'', PFloat p)]
     = Inr \<lparr>i_item_id = None, i_name = n, i_price = p, i_quantity = 1, i_options = None\<rparr>"
    by (simp add: validate_OrderItem_def bind_exn_def req_str_def opt_str_def opt_dict_def
        float_field_def int_field_def)
  have v: "validate_Order P ?body = Inr ?ord"
    by (simp add: validate_Order_def items_field_def a bind_exn_def float_field_def opt_str_def)
  from create_order_returns [of D ?ord w]
  obtain resp where r: "result (create_order D ?ord w) = Inr resp"
    by (elim exE conjE)
  have "result (post_api_orders D P (PDict ?body) w) = Http200 resp"
    by (simp add: post_api_orders_valid [OF v] r)
  then have c: "\<exists>resp. result (post_api_orders D P (PDict ?body) w) = Http200 resp"
    by (intro exI)
  have d: "float_lt p 0 \<longrightarrow>
        isl (validate_MenuItem P [(''name'', PStr n), (''price'', PFloat p),
                                  (''category'', PStr c)])"
    by (cases p) (simp_all add: validate_MenuItem_def bind_exn_def req_str_def opt_str_def
        float_field_def)
  show ?thesis
    by (intro conjI a b c d)
qed

theorem order_item_unconstrained_witness:
  "float_lt (Finite (- 3)) 0
   \<and> validate_OrderItem digits_parse
        [(''name'', PStr ''Wrap''), (''price'', PFloat (Finite (- 3))), (''quantity'', PInt (- 2))]
     = Inr \<lparr>i_item_id = None, i_name = ''Wrap'', i_price = Finite (- 3), i_quantity = - 2,
            i_options = None\<rparr>
   \<and> isl (validate_MenuItem digits_parse
            [(''name'', PStr ''Wrap''), (''price'', PFloat (Finite (- 3))),
             (''category'', PStr ''wraps'')])"
  using order_item_unconstrained
    [where P = digits_parse and n = "''Wrap''" and p = "Finite (- 3)" and q = "- 2"
       and c = "''wraps''" and D = store_database and w = empty_store
       and s = "Finite 1" and t = "Finite 0" and tot = "Finite 1"]
  by simp

text \<open>
  C10. When the read returns documents and one of them does not validate, the handler
  returns the three defaults: neither the stored documents nor an error.
\<close>

theorem invalid_document_gives_defaults:
  "(import_db D w = Inr DbHandle \<and> db_find D ''menuitem'' w = Inr docs \<and> d \<in> set docs
      \<and> isl (validate_MenuItem P d)
     \<longrightarrow> result (get_api_menu D P w) = Http200 menu_defaults)
   \<and> (import_db D w = Inr DbHandle \<and> db_find D ''review'' w = Inr docs' \<and> d' \<in> set docs'
      \<and> isl (validate_Review P d')
     \<longrightarrow> result (get_api_reviews D P w) = Http200 review_defaults)"
proof -
  have a: "import_db D w = Inr DbHandle \<and> db_find D ''menuitem'' w = Inr docs \<and> d \<in> set docs
      \<and> isl (validate_MenuItem P d)
     \<longrightarrow> result (get_api_menu D P w) = Http200 menu_defaults"
  proof (intro impI, elim conjE)
    assume h: "import_db D w = Inr DbHandle" "db_find D ''menuitem'' w = Inr docs"
      "d \<in> set docs" "isl (validate_MenuItem P d)"
    from map_exn_fails [of d docs "validate_MenuItem P", OF h(3) h(4)]
    obtain e where "map_exn (validate_MenuItem P) docs = Inl e"
      by (cases "map_exn (validate_MenuItem P) docs") simp_all
    then show "result (get_api_menu D P w) = Http200 menu_defaults"
      by (simp add: get_api_menu_def result_respond get_menu_result h(1) h(2))
  qed
  have b: "import_db D w = Inr DbHandle \<and> db_find D ''review'' w = Inr docs' \<and> d' \<in> set docs'
      \<and> isl (validate_Review P d')
     \<longrightarrow> result (get_api_reviews D P w) = Http200 review_defaults"
  proof (intro impI, elim conjE)
    assume h: "import_db D w = Inr DbHandle" "db_find D ''review'' w = Inr docs'"
      "d' \<in> set docs'" "isl (validate_Review P d')"
    from map_exn_fails [of d' docs' "validate_Review P", OF h(3) h(4)]
    obtain e where "map_exn (validate_Review P) docs' = Inl e"
      by (cases "map_exn (validate_Review P) docs'") simp_all
    then show "result (get_api_reviews D P w) = Http200 review_defaults"
      by (simp add: get_api_reviews_def result_respond get_reviews_result h(1) h(2))
  qed
  show ?thesis
    by (intro conjI a b)
qed

theorem invalid_document_gives_defaults_witness:
  "import_db store_database invalid_documents = Inr DbHandle
   \<and> db_find store_database ''menuitem'' invalid_documents
       = Inr [[(''name'', PStr ''Tea''), (''price'', PFloat (Finite (- 1))),
               (''category'', PStr ''drinks'')]]
   \<and> isl (validate_MenuItem digits_parse
            [(''name'', PStr ''Tea''), (''price'', PFloat (Finite (- 1))),
             (''category'', PStr ''drinks'')])
   \<and> result (get_api_menu store_database digits_parse invalid_documents) = Http200 menu_defaults
   \<and> db_find store_database ''review'' invalid_documents
       = Inr [[(''name'', PStr ''Zed''), (''rating'', PInt 6), (''quote'', PStr ''Fine'')]]
   \<and> isl (validate_Review digits_parse
            [(''name'', PStr ''Zed''), (''rating'', PInt 6), (''quote'', PStr ''Fine'')])
   \<and> result (get_api_reviews store_database digits_parse invalid_documents)
       = Http200 review_defaults"
proof -
  have i: "import_db store_database invalid_documents = Inr DbHandle"
    by (simp add: store_database_def store_import_db_def invalid_documents_def)
  have f1: "db_find store_database ''menuitem'' invalid_documents
       = Inr [[(''name'', PStr ''Tea''), (''price'', PFloat (Finite (- 1))),
               (''category'', PStr ''drinks'')]]"
    by (simp add: store_database_def store_find_def documents_def invalid_documents_def)
  have f2: "db_find store_database ''review'' invalid_documents
       = Inr [[(''name'', PStr ''Zed''), (''rating'', PInt 6), (''quote'', PStr ''Fine'')]]"
    by (simp add: store_database_def store_find_def documents_def invalid_documents_def)
  have v1: "isl (validate_MenuItem digits_parse
            [(''name'', PStr ''Tea''), (''price'', PFloat (Finite (- 1))),
             (''category'', PStr ''drinks'')])"
    by (simp add: validate_MenuItem_def bind_exn_def req_str_def opt_str_def float_field_def)
  have v2: "isl (validate_Review digits_parse
            [(''name'', PStr ''Zed''), (''rating'', PInt 6), (''quote'', PStr ''Fine'')])"
    by (simp add: validate_Review_def bind_exn_def req_str_def opt_str_def int_field_def)
  show ?thesis
    using i f1 f2 v1 v2
      invalid_document_gives_defaults
        [where D = store_database and P = digits_parse and w = invalid_documents
           and docs = "[[(''name'', PStr ''Tea''), (''price'', PFloat (Finite (- 1))),
                         (''category'', PStr ''drinks'')]]"
           and d = "[(''name'', PStr ''Tea''), (''price'', PFloat (Finite (- 1))),
                     (''category'', PStr ''drinks'')]"
           and docs' = "[[(''name'', PStr ''Zed''), (''rating'', PInt 6),
                          (''quote'', PStr ''Fine'')]]"
           and d' = "[(''name'', PStr ''Zed''), (''rating'', PInt 6), (''quote'', PStr ''Fine'')]"]
    by simp
qed


text \<open>
  C5. Seeding happens once. Take a world where the collection reads as empty, where the
  insert of the defaults succeeds and where, afterwards, the collection reads as the
  documents inserted. The first call reads, inserts the three defaults and returns them;
  the second call reads only, leaves the world as it is and returns the same three
  records. A handler inserts only when its read returned no document.
\<close>

theorem seeding_is_idempotent:
  "(import_db D w = Inr DbHandle \<and> db_find D ''menuitem'' w = Inr []
      \<and> db_insert_many D ''menuitem'' (map model_dump_MenuItem menu_defaults) w = (None, wm)
      \<and> import_db D wm = Inr DbHandle
      \<and> db_find D ''menuitem'' wm = Inr (map model_dump_MenuItem menu_defaults)
     \<longrightarrow> result (get_api_menu D P w) = Http200 menu_defaults
         \<and> calls (get_api_menu D P w)
             = [Find ''menuitem'',
                InsertMany ''menuitem'' (map model_dump_MenuItem menu_defaults)]
         \<and> world (get_api_menu D P w) = wm
         \<and> result (get_api_menu D P wm) = Http200 menu_defaults
         \<and> calls (get_api_menu D P wm) = [Find ''menuitem'']
         \<and> world (get_api_menu D P wm) = wm)
   \<and> (import_db D w = Inr DbHandle \<and> db_find D ''review'' w = Inr []
      \<and> db_insert_many D ''review'' (map model_dump_Review review_defaults) w = (None, wr)
      \<and> import_db D wr = Inr DbHandle
      \<and> db_find D ''review'' wr = Inr (map model_dump_Review review_defaults)
     \<longrightarrow> result (get_api_reviews D P w) = Http200 review_defaults
         \<and> calls (get_api_reviews D P w)
             = [Find ''review'', InsertMany ''review'' (map model_dump_Review review_defaults)]
         \<and> world (get_api_reviews D P w) = wr
         \<and> result (get_api_reviews D P wr) = Http200 review_defaults
         \<and> calls (get_api_reviews D P wr) = [Find ''review'']
         \<and> world (get_api_reviews D P wr) = wr)
   \<and> (list_ex is_insert (calls (get_api_menu D P w)) \<longrightarrow> db_find D ''menuitem'' w = Inr [])
   \<and> (list_ex is_insert (calls (get_api_reviews D P w)) \<longrightarrow> db_find D ''review'' w = Inr [])"
proof -
  have a: "import_db D w = Inr DbHandle \<and> db_find D ''menuitem'' w = Inr []
      \<and> db_insert_many D ''menuitem'' (map model_dump_MenuItem menu_defaults) w = (None, wm)
      \<and> import_db D wm = Inr DbHandle
      \<and> db_find D ''menuitem'' wm = Inr (map model_dump_MenuItem menu_defaults)
     \<longrightarrow> result (get_api_menu D P w) = Http200 menu_defaults
         \<and> calls (get_api_menu D P w)
             = [Find ''menuitem'',
                InsertMany ''menuitem'' (map model_dump_MenuItem menu_defaults)]
         \<and> world (get_api_menu D P w) = wm
         \<and> result (get_api_menu D P wm) = Http200 menu_defaults
         \<and> calls (get_api_menu D P wm) = [Find ''menuitem'']
         \<and> world (get_api_menu D P wm) = wm"
    by (simp add: get_api_menu_def result_respond calls_respond world_respond
        get_menu_result get_menu_calls get_menu_world menu_defaults_nonempty
        menu_defaults_roundtrip)
  have b: "import_db D w = Inr DbHandle \<and> db_find D ''review'' w = Inr []
      \<and> db_insert_many D ''review'' (map model_dump_Review review_defaults) w = (None, wr)
      \<and> import_db D wr = Inr DbHandle
      \<and> db_find D ''review'' wr = Inr (map model_dump_Review review_defaults)
     \<longrightarrow> result (get_api_reviews D P w) = Http200 review_defaults
         \<and> calls (get_api_reviews D P w)
             = [Find ''review'', InsertMany ''review'' (map model_dump_Review review_defaults)]
         \<and> world (get_api_reviews D P w) = wr
         \<and> result (get_api_reviews D P wr) = Http200 review_defaults
         \<and> calls (get_api_reviews D P wr) = [Find ''review'']
         \<and> world (get_api_reviews D P wr) = wr"
    by (simp add: get_api_reviews_def result_respond calls_respond world_respond
        get_reviews_result get_reviews_calls get_reviews_world review_defaults_nonempty
        review_defaults_roundtrip)
  have c: "list_ex is_insert (calls (get_api_menu D P w)) \<longrightarrow> db_find D ''menuitem'' w = Inr []"
    using insert_only_when_empty_menu [of D P w] by (simp add: get_api_menu_def calls_respond)
  have d: "list_ex is_insert (calls (get_api_reviews D P w)) \<longrightarrow> db_find D ''review'' w = Inr []"
    using insert_only_when_empty_reviews [of D P w]
    by (simp add: get_api_reviews_def calls_respond)
  show ?thesis
    by (intro conjI a b c d)
qed

theorem seeding_is_idempotent_witness:
  "import_db store_database empty_store = Inr DbHandle
   \<and> db_find store_database ''menuitem'' empty_store = Inr []
   \<and> db_find store_database ''menuitem'' seeded_menu
       = Inr (map model_dump_MenuItem menu_defaults)
   \<and> result (get_api_menu store_database digits_parse empty_store) = Http200 menu_defaults
   \<and> world (get_api_menu store_database digits_parse empty_store) = seeded_menu
   \<and> list_ex is_insert (calls (get_api_menu store_database digits_parse empty_store))
   \<and> get_api_menu store_database digits_parse seeded_menu
       = \<lparr>result = Http200 menu_defaults, world = seeded_menu, calls = [Find ''menuitem'']\<rparr>
   \<and> db_find store_database ''review'' empty_store = Inr []
   \<and> result (get_api_reviews store_database digits_parse empty_store) = Http200 review_defaults
   \<and> world (get_api_reviews store_database digits_parse empty_store) = seeded_reviews
   \<and> get_api_reviews store_database digits_parse seeded_reviews
       = \<lparr>result = Http200 review_defaults, world = seeded_reviews, calls = [Find ''review'']\<rparr>"
proof -
  have i: "import_db store_database empty_store = Inr DbHandle"
    "import_db store_database seeded_menu = Inr DbHandle"
    "import_db store_database seeded_reviews = Inr DbHandle"
    by (simp_all add: store_database_def store_import_db_def empty_store_def seeded_menu_def
        seeded_reviews_def store_insert_def)
  have f: "db_find store_database ''menuitem'' empty_store = Inr []"
    "db_find store_database ''review'' empty_store = Inr []"
    by (simp_all add: store_database_def store_find_def documents_def empty_store_def)
  have m: "db_insert_many store_database ''menuitem'' (map model_dump_MenuItem menu_defaults)
             empty_store = (None, seeded_menu)"
    "db_insert_many store_database ''review'' (map model_dump_Review review_defaults)
             empty_store = (None, seeded_reviews)"
    by (simp_all add: store_database_def store_insert_many_def seeded_menu_def
        seeded_reviews_def)
  have eq: "\<And>r :: (MenuItem list http, store) outcome.
      r = \<lparr>result = result r, world = world r, calls = calls r\<rparr>"
    "\<And>r :: (Review list http, store) outcome.
      r = \<lparr>result = result r, world = world r, calls = calls r\<rparr>"
    by simp_all
  show ?thesis
    using i f m store_find_seeded_menu store_find_seeded_reviews
      seeding_is_idempotent
        [where D = store_database and P = digits_parse and w = empty_store
           and wm = seeded_menu and wr = seeded_reviews]
      eq(1) [of "get_api_menu store_database digits_parse seeded_menu"]
      eq(2) [of "get_api_reviews store_database digits_parse seeded_reviews"]
    by simp
qed


text \<open>
  C6. \<open>GET /test\<close> returns a payload whatever the probe does and whatever the environment
  holds. A failed import, or an exception on reading \<open>db.name\<close>, shows in \<open>database\<close>
  as the module-not-found text (\<open>ImportError\<close>) or as \<open>Error:\<close> with the first 50
  characters of the message; a \<open>db\<close> that is \<open>None\<close> and a failed listing of the
  collections show as their own texts. \<open>database_url\<close> and \<open>database_name\<close> tell
  whether the two variables are set.
\<close>

theorem test_database_never_raises:
  "\<exists>r. test_database D env w = Inr r
     \<and> backend r = check_mark @ '' Running''
     \<and> database_url r = Some (if env_set env ''DATABASE_URL'' then check_mark @ '' Set''
                               else cross_mark @ '' Not Set'')
     \<and> database_name r = Some (if env_set env ''DATABASE_NAME'' then check_mark @ '' Set''
                                else cross_mark @ '' Not Set'')
     \<and> (\<forall>e. import_db D w = Inl e
               \<or> (import_db D w = Inr DbHandle \<and> db_name D w = Some (Inl e))
           \<longrightarrow> database r =
                 (case e of
                    ImportError m \<Rightarrow>
                      cross_mark @ '' Database module not found (run enable-database first)''
                  | _ \<Rightarrow> cross_mark @ '' Error: '' @ take_cp 50 (str_exn e)))
     \<and> (import_db D w = Inr DbNone
           \<longrightarrow> database r = warning_sign @ ''  Available but not initialized''
               \<and> connection_status r = ''Not Connected'')
     \<and> (\<forall>e. import_db D w = Inr DbHandle \<and> (\<forall>e'. db_name D w \<noteq> Some (Inl e'))
              \<and> list_collection_names D w = Inl e
           \<longrightarrow> database r = warning_sign @ ''  Connected but Error: '' @ take_cp 50 (str_exn e)
               \<and> connection_status r = ''Connected'' \<and> collections r = [])
     \<and> (\<forall>cs. import_db D w = Inr DbHandle \<and> (\<forall>e'. db_name D w \<noteq> Some (Inl e'))
              \<and> list_collection_names D w = Inr cs
           \<longrightarrow> database r = check_mark @ '' Connected & Working''
               \<and> connection_status r = ''Connected'' \<and> collections r = take 10 cs)"
proof -
  obtain r where r: "test_database D env w = Inr r"
    by (simp add: test_database_def Let_def)
  have a: "backend r = check_mark @ '' Running''"
    using r by (auto simp add: test_database_def Let_def outer_except_other_fields
        split: sum.splits dbref.splits option.splits)
  have b: "database_url r = Some (if env_set env ''DATABASE_URL'' then check_mark @ '' Set''
                               else cross_mark @ '' Not Set'')"
    using r by (auto simp add: test_database_def Let_def)
  have c: "database_name r = Some (if env_set env ''DATABASE_NAME'' then check_mark @ '' Set''
                                else cross_mark @ '' Not Set'')"
    using r by (auto simp add: test_database_def Let_def)
  have d: "\<forall>e. import_db D w = Inl e
               \<or> (import_db D w = Inr DbHandle \<and> db_name D w = Some (Inl e))
           \<longrightarrow> database r =
                 (case e of
                    ImportError m \<Rightarrow>
                      cross_mark @ '' Database module not found (run enable-database first)''
                  | _ \<Rightarrow> cross_mark @ '' Error: '' @ take_cp 50 (str_exn e))"
    using r by (auto simp add: test_database_def Let_def database_outer_except)
  have e: "import_db D w = Inr DbNone
           \<longrightarrow> database r = warning_sign @ ''  Available but not initialized''
               \<and> connection_status r = ''Not Connected''"
    using r by (auto simp add: test_database_def Let_def)
  have f: "\<forall>e. import_db D w = Inr DbHandle \<and> (\<forall>e'. db_name D w \<noteq> Some (Inl e'))
              \<and> list_collection_names D w = Inl e
           \<longrightarrow> database r = warning_sign @ ''  Connected but Error: '' @ take_cp 50 (str_exn e)
               \<and> connection_status r = ''Connected'' \<and> collections r = []"
    using r by (auto simp add: test_database_def Let_def split: option.splits sum.splits)
  have g: "\<forall>cs. import_db D w = Inr DbHandle \<and> (\<forall>e'. db_name D w \<noteq> Some (Inl e'))
              \<and> list_collection_names D w = Inr cs
           \<longrightarrow> database r = check_mark @ '' Connected & Working''
               \<and> connection_status r = ''Connected'' \<and> collections r = take 10 cs"
    using r by (auto simp add: test_database_def Let_def split: option.splits sum.splits)
  show ?thesis
    by (intro exI [of _ r] conjI r a b c d e f g)
qed

theorem test_database_never_raises_witness:
  "import_db store_database no_module = Inl (ImportError ''No module named database'')
   \<and> (\<exists>r. test_database store_database (\<lambda>k. None) no_module = Inr r
          \<and> database r = cross_mark @ '' Database module not found (run enable-database first)''
          \<and> database_url r = Some (cross_mark @ '' Not Set''))"
proof -
  have i: "import_db store_database no_module = Inl (ImportError ''No module named database'')"
    by (simp add: store_database_def store_import_db_def no_module_def)
  from test_database_never_raises [of store_database "\<lambda>k. None" no_module]
  obtain r where r: "test_database store_database (\<lambda>k. None) no_module = Inr r"
    "database_url r = Some (if env_set (\<lambda>k. None) ''DATABASE_URL'' then check_mark @ '' Set''
                               else cross_mark @ '' Not Set'')"
    "\<forall>e. import_db store_database no_module = Inl e
               \<or> (import_db store_database no_module = Inr DbHandle
                   \<and> db_name store_database no_module = Some (Inl e))
           \<longrightarrow> database r =
                 (case e of
                    ImportError m \<Rightarrow>
                      cross_mark @ '' Database module not found (run enable-database first)''
                  | _ \<Rightarrow> cross_mark @ '' Error: '' @ take_cp 50 (str_exn e))"
    by (elim exE conjE)
  from r(3) i have "database r
      = cross_mark @ '' Database module not found (run enable-database first)''"
    by simp
  moreover from r(2) have "database_url r = Some (cross_mark @ '' Not Set'')"
    by (simp add: env_set_def)
  ultimately show ?thesis
    using i r(1) by (intro conjI exI [of _ r])
qed

text \<open>
  C7. \<open>GET /schema\<close> returns three entries, \<open>menuitem\<close>, \<open>review\<close> and \<open>order\<close>, holding
  the schemas of \<open>MenuItem\<close>, \<open>Review\<close> and \<open>Order\<close>. The schemas of \<open>User\<close>, \<open>Product\<close>
  and \<open>OrderItem\<close> are not among them; \<open>OrderItem\<close> appears only nested in that of
  \<open>Order\<close>.
\<close>

theorem schema_has_three_shapes:
  "map fst get_schema = [''menuitem'', ''review'', ''order'']
   \<and> map snd get_schema = [MenuItem_schema, Review_schema, Order_schema]
   \<and> map (\<lambda>p. title (snd p)) get_schema = [MenuItem_name, Review_name, Order_name]
   \<and> length get_schema = 3
   \<and> User_schema \<notin> set (map snd get_schema)
   \<and> Product_schema \<notin> set (map snd get_schema)
   \<and> OrderItem_schema \<notin> set (map snd get_schema)
   \<and> title User_schema \<notin> set (map (\<lambda>p. title (snd p)) get_schema)
   \<and> title Product_schema \<notin> set (map (\<lambda>p. title (snd p)) get_schema)
   \<and> title OrderItem_schema \<notin> set (map (\<lambda>p. title (snd p)) get_schema)
   \<and> defs Order_schema = [title OrderItem_schema]"
  by (simp add: get_schema_def MenuItem_schema_def Review_schema_def Order_schema_def
      User_schema_def Product_schema_def OrderItem_schema_def MenuItem_name_def Review_name_def
      Order_name_def)


text \<open>
  C8. Each persistence call names its collection by the lower-case name of the class:
  \<open>get_menu\<close> reads and seeds \<open>menuitem\<close>, \<open>get_reviews\<close> reads and seeds \<open>review\<close>, and
  \<open>create_order\<close> calls \<open>create_document\<close> with \<open>order\<close>. No handler makes any other
  call.
\<close>

theorem collections_named_after_classes:
  "lower MenuItem_name = ''menuitem'' \<and> lower Review_name = ''review''
   \<and> lower Order_name = ''order''
   \<and> (calls (get_menu D P w) = []
        \<or> calls (get_menu D P w) = [Find (lower MenuItem_name)]
        \<or> calls (get_menu D P w)
            = [Find (lower MenuItem_name),
               InsertMany (lower MenuItem_name) (map model_dump_MenuItem menu_defaults)])
   \<and> (calls (get_reviews D P w) = []
        \<or> calls (get_reviews D P w) = [Find (lower Review_name)]
        \<or> calls (get_reviews D P w)
            = [Find (lower Review_name),
               InsertMany (lower Review_name) (map model_dump_Review review_defaults)])
   \<and> (calls (create_order D ord w) = []
        \<or> calls (create_order D ord w) = [CreateDocument (lower Order_name) ord])
   \<and> list_all (\<lambda>x. collection x = lower MenuItem_name) (calls (get_menu D P w))
   \<and> list_all (\<lambda>x. collection x = lower Review_name) (calls (get_reviews D P w))
   \<and> list_all (\<lambda>x. collection x = lower Order_name) (calls (create_order D ord w))
   \<and> (import_db D w = Inr DbHandle
        \<longrightarrow> take 1 (calls (get_menu D P w)) = [Find (lower MenuItem_name)]
            \<and> take 1 (calls (get_reviews D P w)) = [Find (lower Review_name)])
   \<and> (import_db D w = Inr DbHandle \<and> db_find D ''menuitem'' w = Inr []
        \<longrightarrow> calls (get_menu D P w)
            = [Find (lower MenuItem_name),
               InsertMany (lower MenuItem_name) (map model_dump_MenuItem menu_defaults)])
   \<and> (import_db D w = Inr DbHandle \<and> db_find D ''review'' w = Inr []
        \<longrightarrow> calls (get_reviews D P w)
            = [Find (lower Review_name),
               InsertMany (lower Review_name) (map model_dump_Review review_defaults)])
   \<and> (import_create_document D w = None
        \<longrightarrow> calls (create_order D ord w) = [CreateDocument (lower Order_name) ord])"
proof -
  have a: "calls (get_menu D P w) = []
        \<or> calls (get_menu D P w) = [Find (lower MenuItem_name)]
        \<or> calls (get_menu D P w)
            = [Find (lower MenuItem_name),
               InsertMany (lower MenuItem_name) (map model_dump_MenuItem menu_defaults)]"
    by (simp add: get_menu_calls lower_names split: sum.split dbref.split)
  have b: "calls (get_reviews D P w) = []
        \<or> calls (get_reviews D P w) = [Find (lower Review_name)]
        \<or> calls (get_reviews D P w)
            = [Find (lower Review_name),
               InsertMany (lower Review_name) (map model_dump_Review review_defaults)]"
    by (simp add: get_reviews_calls lower_names split: sum.split dbref.split)
  have c: "calls (create_order D ord w) = []
        \<or> calls (create_order D ord w) = [CreateDocument (lower Order_name) ord]"
    by (simp add: create_order_calls lower_names split: option.split)
  have la: "list_all (\<lambda>x. collection x = lower MenuItem_name) (calls (get_menu D P w))"
    using a by (elim disjE) simp_all
  have lb: "list_all (\<lambda>x. collection x = lower Review_name) (calls (get_reviews D P w))"
    using b by (elim disjE) simp_all
  have lc: "list_all (\<lambda>x. collection x = lower Order_name) (calls (create_order D ord w))"
    using c by (elim disjE) simp_all
  have d: "import_db D w = Inr DbHandle
        \<longrightarrow> take 1 (calls (get_menu D P w)) = [Find (lower MenuItem_name)]
            \<and> take 1 (calls (get_reviews D P w)) = [Find (lower Review_name)]"
    by (simp add: get_menu_calls get_reviews_calls lower_names split: sum.split)
  have e: "import_db D w = Inr DbHandle \<and> db_find D ''menuitem'' w = Inr []
        \<longrightarrow> calls (get_menu D P w)
            = [Find (lower MenuItem_name),
               InsertMany (lower MenuItem_name) (map model_dump_MenuItem menu_defaults)]"
    by (simp add: get_menu_calls lower_names)
  have f: "import_db D w = Inr DbHandle \<and> db_find D ''review'' w = Inr []
        \<longrightarrow> calls (get_reviews D P w)
            = [Find (lower Review_name),
               InsertMany (lower Review_name) (map model_dump_Review review_defaults)]"
    by (simp add: get_reviews_calls lower_names)
  have g: "import_create_document D w = None
        \<longrightarrow> calls (create_order D ord w) = [CreateDocument (lower Order_name) ord]"
    by (simp add: create_order_calls lower_names)
  show ?thesis
    by (intro conjI lower_names a b c la lb lc d e f g)
qed

theorem collections_named_after_classes_witness:
  "import_db store_database empty_store = Inr DbHandle
   \<and> db_find store_database ''menuitem'' empty_store = Inr []
   \<and> db_find store_database ''review'' empty_store = Inr []
   \<and> import_create_document store_database empty_store = None
   \<and> calls (get_menu store_database digits_parse empty_store)
       = [Find ''menuitem'', InsertMany ''menuitem'' (map model_dump_MenuItem menu_defaults)]
   \<and> calls (get_reviews store_database digits_parse empty_store)
       = [Find ''review'', InsertMany ''review'' (map model_dump_Review review_defaults)]
   \<and> calls (create_order store_database order_example empty_store)
       = [CreateDocument ''order'' order_example]"
proof -
  have i: "import_db store_database empty_store = Inr DbHandle"
    by (simp add: store_database_def store_import_db_def empty_store_def)
  have f1: "db_find store_database ''menuitem'' empty_store = Inr []"
    by (simp add: store_database_def store_find_def documents_def empty_store_def)
  have f2: "db_find store_database ''review'' empty_store = Inr []"
    by (simp add: store_database_def store_find_def documents_def empty_store_def)
  have c: "import_create_document store_database empty_store = None"
    by (simp add: store_database_def empty_store_def)
  show ?thesis
    using i f1 f2 c
      collections_named_after_classes
        [where D = store_database and P = digits_parse and w = empty_store
           and ord = order_example]
    by simp
qed



end
